theory Spec2Isabelle
  imports Main "HOL-Library.Word" "HOL-Library.AList"
begin

unbundle bit_operations_syntax

section \<open>JavaScript values\<close>

text \<open>
  A JavaScript string is a sequence of 16-bit code units; \<open>charCodeAt\<close> reads one of
  them. A \<open>Uint8Array\<close> (and a Node \<open>Buffer\<close>) is a sequence of bytes. String
  constants of the program are written \<open>js ''...''\<close>.
\<close>

type_synonym byte = "8 word"
type_synonym jschar = "16 word"
type_synonym jsstring = "jschar list"

definition js :: "string \<Rightarrow> jsstring" where
  "js s = map (\<lambda>c. of_nat (of_char c)) s"

subsection \<open>String methods\<close>

text \<open>
  \<open>toLowerCase\<close> is exact on code units below 256 (ASCII and Latin-1: the letters
  \<open>A\<close>-\<open>Z\<close> and U+00C0-U+00DE without the multiplication sign move up by 32).
  Code units from 256 on are left as they are; JavaScript maps some of them to other
  non-ASCII units, which no comparison of this program tells apart from the unmapped
  ones, because every constant compared against is ASCII.
\<close>

definition toLowerCase_unit :: "jschar \<Rightarrow> jschar" where
  "toLowerCase_unit c =
     (if (0x41 \<le> c \<and> c \<le> 0x5A) \<or> (0xC0 \<le> c \<and> c \<le> 0xDE \<and> c \<noteq> 0xD7)
      then c + 0x20 else c)"

definition toLowerCase :: "jsstring \<Rightarrow> jsstring" where
  "toLowerCase s = map toLowerCase_unit s"

text \<open>The white space and line terminators that \<open>trim\<close> removes at both ends.\<close>

definition isWhiteSpace :: "jschar \<Rightarrow> bool" where
  "isWhiteSpace c =
     (c = 0x09 \<or> c = 0x0A \<or> c = 0x0B \<or> c = 0x0C \<or> c = 0x0D \<or> c = 0x20 \<or> c = 0xA0
      \<or> c = 0x1680 \<or> (0x2000 \<le> c \<and> c \<le> 0x200A) \<or> c = 0x2028 \<or> c = 0x2029
      \<or> c = 0x202F \<or> c = 0x205F \<or> c = 0x3000 \<or> c = 0xFEFF)"

definition trim :: "jsstring \<Rightarrow> jsstring" where
  "trim s = rev (dropWhile isWhiteSpace (rev (dropWhile isWhiteSpace s)))"

text \<open>\<open>s.split(sep)\<close> for a separator of one code unit: never an empty array.\<close>

fun split :: "jschar \<Rightarrow> jsstring \<Rightarrow> jsstring list" where
  "split sep [] = [[]]"
| "split sep (c # cs) =
     (if c = sep then [] # split sep cs
      else (case split sep cs of
              [] \<Rightarrow> [[c]]
            | f # fs \<Rightarrow> (c # f) # fs))"

definition startsWith :: "jsstring \<Rightarrow> jsstring \<Rightarrow> bool" where
  "startsWith s p = (take (length p) s = p)"

text \<open>\<open>s.includes(sub)\<close>: \<open>sub\<close> occurs in \<open>s\<close> as a contiguous substring.\<close>

fun includes_str :: "jsstring \<Rightarrow> jsstring \<Rightarrow> bool" where
  "includes_str [] sub = (sub = [])"
| "includes_str (c # cs) sub = (startsWith (c # cs) sub \<or> includes_str cs sub)"

text \<open>A \<open>null\<close> spliced into a template string or passed where a string is wanted.\<close>

definition strOrNull :: "jsstring option \<Rightarrow> jsstring" where
  "strOrNull x = (case x of None \<Rightarrow> js ''null'' | Some s \<Rightarrow> s)"

section \<open>str2ab (background.js, bin.js)\<close>

text \<open>
  \<^verbatim>\<open>const ab = new ArrayBuffer(str.length); const buffer = new Uint8Array(ab);
  for (let i = 0; i < str.length; ++i) { buffer[i] = str.charCodeAt(i); }
  return buffer;\<close>
  The buffer starts zero-filled; a store into a \<open>Uint8Array\<close> keeps the low eight bits
  of the number stored (\<open>ucast\<close> from 16 to 8 bits).
\<close>

function str2ab_loop :: "jsstring \<Rightarrow> nat \<Rightarrow> byte list \<Rightarrow> byte list" where
  "str2ab_loop str i buffer =
     (if i < length str
      then str2ab_loop str (i + 1) (buffer[i := ucast (str ! i)])
      else buffer)"
  by pat_completeness auto
termination
  by (relation "measure (\<lambda>(str, i, buffer). length str - i)") auto

declare str2ab_loop.simps [simp del]

definition str2ab :: "jsstring \<Rightarrow> byte list" where
  "str2ab str = str2ab_loop str 0 (replicate (length str) 0)"

section \<open>The verifier extension (background.js)\<close>

subsection \<open>Constants\<close>

definition HARC_DNS_SUBDOMAIN :: jsstring where
  "HARC_DNS_SUBDOMAIN = js ''_arc''"

definition HARC_HEADER_SIGNATURE :: jsstring where
  "HARC_HEADER_SIGNATURE = js ''x-arc-signature''"

definition HARC_VALID_ACTIONS :: "jsstring list" where
  "HARC_VALID_ACTIONS = [js ''enforce'', js ''warn'']"

subsection \<open>State, effects and the browser\<close>

text \<open>
  The four global maps are fields of the state. \<open>TAB_RESPONSES_MAP\<close> maps a tab to a
  \<open>Map\<close> object of its own; a handler keeps a reference to that object
  (\<open>tabResponses\<close>) while the outer map may lose the tab, so the inner maps live in a
  store (\<open>heap\<close>) and the outer map holds their addresses. \<open>VALIDATION_RESULT_MAP\<close>
  only ever receives the five string constants written by this file, so the dead test
  \<open>currentResult === null\<close> has no branch in the model. An action is \<open>None\<close> when
  it is \<open>null\<close> or \<open>undefined\<close>; both only ever meet \<open>===\<close> against strings.

  What a handler does to the browser is appended to \<open>trace\<close>: badge updates, injected
  scripts, writes to the response filter, timer sleeps and calls of
  \<open>crypto.subtle.verify\<close> (with the data verified). Console logging is left out.
  \<open>ExecuteFile\<close> and \<open>ExecuteAlert\<close> are the earlier verifier's
  \<open>browser.tabs.executeScript\<close> in the active tab, with a file and with code that alerts
  the given message.
\<close>

type_synonym tabId = int
type_synonym addr = nat

record responseData =
  ab :: "byte list"
  blob :: "byte list"

record header =
  hname :: jsstring
  hvalue :: jsstring

record details =
  requestId :: jsstring
  tabId :: tabId
  url :: jsstring
  responseHeaders :: "header list"

datatype effect =
    SetBadgeText tabId string
  | SetBadgeBackgroundColor tabId "nat list"
  | ExecuteScript tabId string
  | ExecuteFile string
  | ExecuteAlert string
  | FilterWrite jsstring "byte list"
  | FilterClose jsstring
  | Sleep nat
  | SubtleVerify "byte list"

record state =
  DNS_DOH_RESOLVER :: "jsstring option"
  TAB_ACTION_MAP :: "tabId \<rightharpoonup> jsstring option"
  TAB_RESPONSES_MAP :: "tabId \<rightharpoonup> addr"
  heap :: "addr \<Rightarrow> (jsstring \<rightharpoonup> responseData)"
  nextAddr :: addr
  TAB_RESPONSES_ENCODING_MAP :: "jsstring \<rightharpoonup> string"
  VALIDATION_RESULT_MAP :: "tabId \<rightharpoonup> string"
  trace :: "effect list"

datatype completion = Normal | Throw

text \<open>
  Everything a handler awaits from outside the program is a field of the browser:
  \<^item> \<open>tabsGet\<close>: \<open>browser.tabs.get(tabId)\<close>, the tab's URL, \<open>None\<close> when it rejects;
  \<^item> \<open>tabsQuery\<close>: the URL of the active tab of the current window, \<open>None\<close> when
    there is none (only the earlier verifier asks for it);
  \<^item> \<open>urlHostname\<close>, \<open>pslParse\<close>: \<open>new URL(url).hostname\<close> and \<open>psl.parse\<close>
    (\<open>subdomain\<close> and \<open>domain\<close>, each possibly \<open>null\<close>);
  \<^item> \<open>dnsResolve\<close>: \<open>new URL(addr).hostname\<close> followed by \<open>browser.dns.resolve\<close>,
    the number of addresses found, \<open>None\<close> when either throws;
  \<^item> \<open>dohQuery\<close>: the TXT query through the resolver, as the list of
    \<open>answer.data.toString()\<close>, \<open>None\<close> when the query rejects;
  \<^item> \<open>atob\<close>: \<open>window.atob\<close>, \<open>None\<close> when it throws;
  \<^item> \<open>importKey\<close>, \<open>verify\<close>: \<open>crypto.subtle\<close> for ECDSA P-256 with SHA-256,
    \<open>importKey\<close> being \<open>None\<close> when it rejects;
  \<^item> \<open>others\<close>: what the other handlers of the extension do to the state while this one
    sleeps in its \<open>i\<close>-th timer. The remaining awaits are taken as atomic.
\<close>

record ('k, 's) browser =
  tabsGet :: "tabId \<Rightarrow> jsstring option"
  tabsQuery :: "jsstring option"
  urlHostname :: "jsstring \<Rightarrow> jsstring"
  pslParse :: "jsstring \<Rightarrow> jsstring option \<times> jsstring option"
  dnsResolve :: "jsstring option \<Rightarrow> nat option"
  dohQuery :: "jsstring option \<Rightarrow> jsstring \<Rightarrow> jsstring list option"
  atob :: "jsstring \<Rightarrow> jsstring option"
  importKey :: "byte list \<Rightarrow> 'k option"
  verify :: "'k \<Rightarrow> byte list \<Rightarrow> byte list \<Rightarrow> bool"
  others :: "nat \<Rightarrow> 's \<Rightarrow> 's"

definition emit :: "effect \<Rightarrow> state \<Rightarrow> state" where
  "emit e s = s\<lparr>trace := trace s @ [e]\<rparr>"

definition sleep :: "('k, state) browser \<Rightarrow> nat \<Rightarrow> nat \<Rightarrow> state \<Rightarrow> state" where
  \<comment> \<open>\<open>await new Promise((c) => { setTimeout(c, ms); })\<close>: the other handlers run
      meanwhile; the trace, being this handler's own, is not theirs to change.\<close>
  "sleep w i ms s = (let s1 = emit (Sleep ms) s in (others w i s1)\<lparr>trace := trace s1\<rparr>)"

subsection \<open>validateDohServer and getHARCDNSPayload\<close>

definition validateDohServer :: "('k, 's) browser \<Rightarrow> jsstring option \<Rightarrow> bool" where
  "validateDohServer w addr =
     (case dnsResolve w addr of
        None \<Rightarrow> False
      | Some addresses \<Rightarrow> addresses \<noteq> 0)"

text \<open>Lines 307-308: the name queried,
  \<^verbatim>\<open>`${domain.subdomain}.${HARC_DNS_SUBDOMAIN}.${domain.domain}`\<close>.\<close>

definition dnsQueryDomain :: "('k, 's) browser \<Rightarrow> jsstring \<Rightarrow> jsstring" where
  "dnsQueryDomain w u =
     (let domain = pslParse w (urlHostname w u)
      in strOrNull (fst domain) @ js ''.'' @ HARC_DNS_SUBDOMAIN @ js ''.''
           @ strOrNull (snd domain))"

definition getHARCDNSPayload ::
  "('k, state) browser \<Rightarrow> state \<Rightarrow> jsstring \<Rightarrow> jsstring option \<times> jsstring option" where
  "getHARCDNSPayload w s u =
     (if \<not> validateDohServer w (DNS_DOH_RESOLVER s)
         then (Some (js ''doh-failure''), None)
         else
           (case dohQuery w (DNS_DOH_RESOLVER s) (dnsQueryDomain w u) of
              None \<Rightarrow> (Some (js ''doh-failure''), None)
            | Some answers \<Rightarrow>
                if length answers = 0 then (None, None)
                else
                  (let payload = split 0x3B (hd answers)
                   in if length payload = 1
                      then (Some (js ''warn''), Some (trim (payload ! 0)))
                      else if length payload = 2
                      then
                        (let action = toLowerCase (trim (payload ! 0));
                             publicKeyDer = trim (payload ! 1)
                         in if action \<notin> set HARC_VALID_ACTIONS then (None, None)
                            else (Some action, Some publicKeyDer))
                      else (None, None))))"

text \<open>
  The parse as the specification words it, for comparison: the fields are taken as they
  stand. \<open>None\<close> is NotDeployed.
\<close>

definition spec_parseRecord :: "jsstring list \<Rightarrow> (jsstring \<times> jsstring) option" where
  "spec_parseRecord answers =
     (case answers of
        [] \<Rightarrow> None
      | first # _ \<Rightarrow>
          (case split 0x3B first of
             [field] \<Rightarrow> Some (js ''warn'', field)
           | [field0, field1] \<Rightarrow>
               if toLowerCase field0 = js ''warn'' \<or> toLowerCase field0 = js ''enforce''
               then Some (toLowerCase field0, field1)
               else None
           | _ \<Rightarrow> None))"

subsection \<open>invokeFailure\<close>

definition invokeFailure :: "tabId \<Rightarrow> jsstring option \<Rightarrow> state \<Rightarrow> state" where
  "invokeFailure t action s =
     (let s1 = emit (SetBadgeText t ''!'') s
      in if action = Some (js ''doh-failure'')
         then
           (let s2 = emit (SetBadgeBackgroundColor t [217, 217, 41, 255]) s1
            in s2\<lparr>VALIDATION_RESULT_MAP := (VALIDATION_RESULT_MAP s2)(t \<mapsto> ''doh-failure'')\<rparr>)
         else
           (let s2 = emit (SetBadgeBackgroundColor t [217, 0, 0, 255]) s1;
                s3 = s2\<lparr>VALIDATION_RESULT_MAP := (VALIDATION_RESULT_MAP s2)(t \<mapsto> ''untrusted'')\<rparr>;
                failureAction =
                  (if action = Some (js ''enforce'') then ''src/actions/block.js''
                   else ''src/actions/warn.js'')
            in emit (ExecuteScript t failureAction) s3))"

subsection \<open>verifyResponseContent\<close>

text \<open>Lines 480-498: the domain publishes no usable HARC record.\<close>

definition recordNotEnabled :: "tabId \<Rightarrow> state \<Rightarrow> state" where
  "recordNotEnabled t s =
     (let s1 =
        (case VALIDATION_RESULT_MAP s t of
           Some currentResult \<Rightarrow>
             if currentResult = ''trusted''
             then s\<lparr>VALIDATION_RESULT_MAP := (VALIDATION_RESULT_MAP s)(t \<mapsto> ''trusted-partial'')\<rparr>
             else s
         | None \<Rightarrow>
             s\<lparr>VALIDATION_RESULT_MAP := (VALIDATION_RESULT_MAP s)(t \<mapsto> ''ignored-domain'')\<rparr>)
      in emit (SetBadgeText t []) s1)"

text \<open>Lines 506-515: wait up to ten seconds for the main resource's action.\<close>

function waitForAction :: "('k, state) browser \<Rightarrow> tabId \<Rightarrow> nat \<Rightarrow> state \<Rightarrow> state" where
  "waitForAction w t i s =
     (if i < 10
      then (if TAB_ACTION_MAP s t \<noteq> None then s
            else waitForAction w t (i + 1) (sleep w i 1000 s))
      else s)"
  by pat_completeness auto
termination
  by (relation "measure (\<lambda>(w, t, i, s). 10 - i)") auto

declare waitForAction.simps [simp del]

text \<open>Lines 500-525: the action to take on failure, and the state after the wait.\<close>

definition resolveAction ::
  "('k, state) browser \<Rightarrow> details \<Rightarrow> addr \<Rightarrow> jsstring \<Rightarrow> jsstring option \<Rightarrow> state
   \<Rightarrow> jsstring option \<times> state" where
  "resolveAction w response tabResponses tabUrl action s =
     (if url response = tabUrl
      then (action, s\<lparr>TAB_ACTION_MAP := (TAB_ACTION_MAP s)(tabId response \<mapsto> action)\<rparr>)
      else
        (let s1 = waitForAction w (tabId response) 0 s
         in if heap s1 tabResponses (url response) \<noteq> None
            then ((case TAB_ACTION_MAP s1 (tabId response) of
                     None \<Rightarrow> None
                   | Some a \<Rightarrow> a), s1)
            else (action, s1)))"

text \<open>Lines 531-547: the last \<open>x-arc-signature\<close> header, trimmed.\<close>

definition signatureHeader :: "header list \<Rightarrow> jsstring option" where
  "signatureHeader hs =
     fold (\<lambda>h signatureEncoded.
             if toLowerCase (hname h) = HARC_HEADER_SIGNATURE then Some (trim (hvalue h))
             else signatureEncoded)
          hs None"

text \<open>Lines 550-565: \<open>importKey("spki", str2ab(window.atob(publicKeyDer)), ...)\<close> in a
  \<open>try\<close>; \<open>publicKey\<close> stays \<open>null\<close> when \<open>atob\<close> or \<open>importKey\<close> throws.\<close>

definition importPublicKey :: "('k, 's) browser \<Rightarrow> jsstring option \<Rightarrow> 'k option" where
  "importPublicKey w publicKeyDer =
     (case atob w (strOrNull publicKeyDer) of
        None \<Rightarrow> None
      | Some der \<Rightarrow> importKey w (str2ab der))"

text \<open>Lines 623-641: the signature verified.\<close>

definition recordVerified :: "tabId \<Rightarrow> state \<Rightarrow> state" where
  "recordVerified t s =
     (let s1 = emit (SetBadgeText t []) s
      in case VALIDATION_RESULT_MAP s1 t of
           Some currentResult \<Rightarrow>
             if currentResult = ''ignored-domain''
             then s1\<lparr>VALIDATION_RESULT_MAP := (VALIDATION_RESULT_MAP s1)(t \<mapsto> ''trusted-partial'')\<rparr>
             else if currentResult \<notin> set [''doh-failure'', ''trusted-partial'', ''untrusted'']
             then s1\<lparr>VALIDATION_RESULT_MAP := (VALIDATION_RESULT_MAP s1)(t \<mapsto> ''trusted'')\<rparr>
             else s1
         | None \<Rightarrow>
             s1\<lparr>VALIDATION_RESULT_MAP := (VALIDATION_RESULT_MAP s1)(t \<mapsto> ''trusted'')\<rparr>)"

text \<open>
  Lines 592-647: verify against the blob bytes, then against the \<open>str2ab\<close> bytes if that
  failed, drop the captured entry, record the verdict. Reading \<open>responseData.blob\<close> of a
  missing entry throws.
\<close>

definition deleteCaptured :: "addr \<Rightarrow> jsstring \<Rightarrow> state \<Rightarrow> state" where
  \<comment> \<open>\<open>tabResponses.delete(response.url)\<close>\<close>
  "deleteCaptured tabResponses u s =
     s\<lparr>heap := (heap s)(tabResponses := (heap s tabResponses)(u := None))\<rparr>"

definition verifySignature ::
  "('k, state) browser \<Rightarrow> details \<Rightarrow> addr \<Rightarrow> jsstring option \<Rightarrow> 'k \<Rightarrow> byte list \<Rightarrow> state
   \<Rightarrow> completion \<times> state" where
  "verifySignature w response tabResponses action publicKey signature s =
     (case heap s tabResponses (url response) of
        None \<Rightarrow> (Throw, s)
      | Some responseData \<Rightarrow>
          (let s1 = emit (SubtleVerify (blob responseData)) s;
               verifiedBlob = verify w publicKey signature (blob responseData);
               s2 = (if \<not> verifiedBlob then emit (SubtleVerify (ab responseData)) s1 else s1);
               signatureVerified =
                 (if \<not> verifiedBlob then verify w publicKey signature (ab responseData)
                  else verifiedBlob);
               s3 = deleteCaptured tabResponses (url response) s2
           in if signatureVerified then (Normal, recordVerified (tabId response) s3)
              else (Normal, invokeFailure (tabId response) action s3)))"

text \<open>Lines 527-647, once the action is settled.\<close>

definition checkResponse ::
  "('k, state) browser \<Rightarrow> details \<Rightarrow> addr \<Rightarrow> jsstring option \<Rightarrow> jsstring option \<Rightarrow> state
   \<Rightarrow> completion \<times> state" where
  "checkResponse w response tabResponses action publicKeyDer s =
     (let signatureEncoded = signatureHeader (responseHeaders response)
      in case importPublicKey w publicKeyDer of
           None \<Rightarrow> (Normal, invokeFailure (tabId response) action s)
         | Some publicKey \<Rightarrow>
             (case signatureEncoded of
                None \<Rightarrow> (Normal, invokeFailure (tabId response) action s)
              | Some encoded \<Rightarrow>
                  (case atob w encoded of
                     None \<Rightarrow> (Normal, invokeFailure (tabId response) action s)
                   | Some decoded \<Rightarrow>
                       verifySignature w response tabResponses action publicKey
                         (str2ab decoded) s)))"

definition verifyResponseContent ::
  "('k, state) browser \<Rightarrow> details \<Rightarrow> state \<Rightarrow> completion \<times> state" where
  "verifyResponseContent w response s =
     (if Some (url response) = DNS_DOH_RESOLVER s then (Normal, s)
      else if DNS_DOH_RESOLVER s = None then (Normal, s)
      else
        (case TAB_RESPONSES_MAP s (tabId response) of
           None \<Rightarrow> (Throw, s)
         | Some tabResponses \<Rightarrow>
             if heap s tabResponses (url response) = None then (Normal, s)
             else
               (case tabsGet w (tabId response) of
                  None \<Rightarrow> (Throw, s)
                | Some tabUrl \<Rightarrow>
                    (let dnsPayload = getHARCDNSPayload w s (url response);
                         action = fst dnsPayload;
                         publicKeyDer = snd dnsPayload
                     in if action = None \<and> publicKeyDer = None
                        then (Normal, recordNotEnabled (tabId response) s)
                        else
                          (case resolveAction w response tabResponses tabUrl action s of
                             (action', s1) \<Rightarrow>
                               checkResponse w response tabResponses action' publicKeyDer s1)))))"


subsection \<open>captureResponseContent\<close>

text \<open>
  A \<open>TextDecoder\<close> is the browser's: \<open>newDecoder\<close> makes one for an encoding label,
  \<open>decodeStream\<close> is \<open>decode(data, {stream: true})\<close> (the text decoded so far and the
  decoder's new state), \<open>decodeEnd\<close> is the final \<open>decode()\<close>.
\<close>

record 'd textDecoder =
  newDecoder :: "string \<Rightarrow> 'd"
  decodeStream :: "'d \<Rightarrow> byte list \<Rightarrow> jsstring \<times> 'd"
  decodeEnd :: "'d \<Rightarrow> jsstring"

text \<open>The variables one call of the listener closes over; \<open>decoder\<close> is \<open>undefined\<close>
  until \<open>onstart\<close>.\<close>

record 'd capture =
  request :: details
  decoder :: "'d option"
  responseChunksArrayBuffer :: "byte list list"
  responseChunks :: "jsstring list"

text \<open>Lines 191-208, up to the creation of the filter.\<close>

definition captureResponseContent ::
  "('k, state) browser \<Rightarrow> details \<Rightarrow> state \<Rightarrow> completion \<times> 'd capture option \<times> state" where
  "captureResponseContent w rq s =
     (let s1 =
        (if TAB_RESPONSES_MAP s (tabId rq) = None
         then s\<lparr>TAB_RESPONSES_MAP := (TAB_RESPONSES_MAP s)(tabId rq \<mapsto> nextAddr s),
                heap := (heap s)(nextAddr s := Map.empty),
                nextAddr := nextAddr s + 1\<rparr>
         else s)
      in case tabsGet w (tabId rq) of
           None \<Rightarrow> (Throw, None, s1)
         | Some tabUrl \<Rightarrow>
             (let s2 =
                (if url rq = tabUrl
                 then s1\<lparr>VALIDATION_RESULT_MAP := (VALIDATION_RESULT_MAP s1)(tabId rq := None)\<rparr>
                 else s1)
              in (Normal,
                  Some \<lparr>request = rq, decoder = None, responseChunksArrayBuffer = [],
                        responseChunks = []\<rparr>,
                  s2)))"

text \<open>Lines 210-221.\<close>

definition onstart :: "'d textDecoder \<Rightarrow> 'd capture \<Rightarrow> state \<Rightarrow> completion \<times> 'd capture \<times> state" where
  "onstart td c s =
     (case TAB_RESPONSES_ENCODING_MAP s (requestId (request c)) of
        Some label \<Rightarrow>
          (Normal, c\<lparr>decoder := Some (newDecoder td label)\<rparr>,
           s\<lparr>TAB_RESPONSES_ENCODING_MAP :=
                (TAB_RESPONSES_ENCODING_MAP s)(requestId (request c) := None)\<rparr>)
      | None \<Rightarrow> (Normal, c\<lparr>decoder := Some (newDecoder td ''latin1'')\<rparr>, s))"

text \<open>Lines 223-231. \<open>decoder.decode\<close> on an \<open>undefined\<close> decoder throws, after the
  write and the first push.\<close>

definition ondata ::
  "'d textDecoder \<Rightarrow> byte list \<Rightarrow> 'd capture \<Rightarrow> state \<Rightarrow> completion \<times> 'd capture \<times> state" where
  "ondata td eventData c s =
     (let s1 = emit (FilterWrite (requestId (request c)) eventData) s;
          c1 = c\<lparr>responseChunksArrayBuffer := responseChunksArrayBuffer c @ [eventData]\<rparr>
      in case decoder c1 of
           None \<Rightarrow> (Throw, c1, s1)
         | Some d \<Rightarrow>
             (case decodeStream td d eventData of
                (chunk, d') \<Rightarrow>
                  (Normal, c1\<lparr>decoder := Some d', responseChunks := responseChunks c1 @ [chunk]\<rparr>,
                   s1)))"

text \<open>Lines 233-246. \<open>new Blob(chunks)\<close> followed by \<open>arrayBuffer()\<close> is the
  concatenation of the chunks; \<open>join("")\<close> that of the strings.\<close>

definition onstop :: "'d textDecoder \<Rightarrow> 'd capture \<Rightarrow> state \<Rightarrow> completion \<times> 'd capture \<times> state" where
  "onstop td c s =
     (let s1 = emit (FilterClose (requestId (request c))) s
      in case decoder c of
           None \<Rightarrow> (Throw, c, s1)
         | Some d \<Rightarrow>
             (let c1 = c\<lparr>responseChunks := responseChunks c @ [decodeEnd td d]\<rparr>;
                  responseData =
                    \<lparr>ab = str2ab (concat (responseChunks c1)),
                     blob = concat (responseChunksArrayBuffer c1)\<rparr>
              in case TAB_RESPONSES_MAP s1 (tabId (request c)) of
                   None \<Rightarrow> (Throw, c1, s1)
                 | Some tabResponses \<Rightarrow>
                     (Normal, c1,
                      s1\<lparr>heap := (heap s1)
                           (tabResponses :=
                              (heap s1 tabResponses)(url (request c) \<mapsto> responseData))\<rparr>)))"

text \<open>
  The filter's events, delivered in order; before the \<open>n\<close>-th event the other handlers
  of the extension have run (\<open>env n\<close>), without access to this handler's trace. A handler
  that throws does not stop the later events.
\<close>

datatype filterEvent = OnStart | OnData "byte list" | OnStop

definition between :: "(nat \<Rightarrow> state \<Rightarrow> state) \<Rightarrow> nat \<Rightarrow> state \<Rightarrow> state" where
  "between env n s = (env n s)\<lparr>trace := trace s\<rparr>"

definition deliver ::
  "'d textDecoder \<Rightarrow> filterEvent \<Rightarrow> 'd capture \<Rightarrow> state \<Rightarrow> completion \<times> 'd capture \<times> state" where
  "deliver td e c s =
     (case e of
        OnStart \<Rightarrow> onstart td c s
      | OnData eventData \<Rightarrow> ondata td eventData c s
      | OnStop \<Rightarrow> onstop td c s)"

fun runFilter ::
  "'d textDecoder \<Rightarrow> (nat \<Rightarrow> state \<Rightarrow> state) \<Rightarrow> nat \<Rightarrow> filterEvent list \<Rightarrow> 'd capture \<Rightarrow> state
   \<Rightarrow> 'd capture \<times> state" where
  "runFilter td env n [] c s = (c, s)"
| "runFilter td env n (e # es) c s =
     (case deliver td e c (between env n s) of
        (completion, c', s') \<Rightarrow> runFilter td env (n + 1) es c' s')"

subsection \<open>captureResponseEncoding and clearTabRecords\<close>

text \<open>Lines 257-276: the encoding to decode the body with, from the first
  \<open>content-type\<close> header.\<close>

fun encodingOf :: "header list \<Rightarrow> string" where
  "encodingOf [] = ''latin1''"
| "encodingOf (h # hs) =
     (if toLowerCase (hname h) = js ''content-type''
      then (if startsWith (hvalue h) (js ''text/html'')
               \<or> includes_str (hvalue h) (js ''charset=utf-8'')
               \<or> includes_str (hvalue h) (js ''charset=utf8'')
            then ''utf-8'' else ''latin1'')
      else encodingOf hs)"

definition captureResponseEncoding :: "details \<Rightarrow> state \<Rightarrow> state" where
  "captureResponseEncoding response s =
     s\<lparr>TAB_RESPONSES_ENCODING_MAP :=
         (TAB_RESPONSES_ENCODING_MAP s)
           (requestId response \<mapsto> encodingOf (responseHeaders response))\<rparr>"

text \<open>Lines 284-294.\<close>

definition clearTabRecords :: "tabId \<Rightarrow> state \<Rightarrow> state" where
  "clearTabRecords t s =
     s\<lparr>TAB_ACTION_MAP := (TAB_ACTION_MAP s)(t := None),
       TAB_RESPONSES_MAP := (TAB_RESPONSES_MAP s)(t := None),
       VALIDATION_RESULT_MAP := (VALIDATION_RESULT_MAP s)(t := None)\<rparr>"

subsection \<open>A concrete browser and state\<close>

text \<open>
  One tab (number 1) showing \<open>https://a.example/\<close>, whose captured bytes are \<open>hi\<close>.
  The domain publishes the record \<open>enforce;S0VZ\<close>. \<open>exampleBrowser\<close> decodes the three
  Base64 strings that occur (\<open>window.atob(null)\<close> decodes the text \<open>null\<close> to three
  bytes), imports exactly the key \<open>KEY\<close>, and accepts the signature \<open>SIG\<close> for the
  bytes \<open>hi\<close> only.
\<close>

definition exampleUrl :: jsstring where
  "exampleUrl = js ''https://a.example/''"

definition exampleImage :: jsstring where
  "exampleImage = js ''https://a.example/logo.png''"

definition exampleBrowser :: "(nat, state) browser" where
  "exampleBrowser =
     \<lparr>tabsGet = (\<lambda>t. if t = 1 then Some exampleUrl else None),
      tabsQuery = Some exampleUrl,
      urlHostname = (\<lambda>u. js ''a.example''),
      pslParse = (\<lambda>h. (None, Some (js ''a.example''))),
      dnsResolve = (\<lambda>a. Some 1),
      dohQuery = (\<lambda>a q. if q = js ''null._arc.a.example'' then Some [js ''enforce;S0VZ''] else Some []),
      atob = (\<lambda>x. if x = js ''null'' then Some [0x9E, 0xE9, 0x65]
                  else if x = js ''S0VZ'' then Some (js ''KEY'')
                  else if x = js ''U0lH'' then Some (js ''SIG'')
                  else None),
      importKey = (\<lambda>der. if der = str2ab (js ''KEY'') then Some 7 else None),
      verify = (\<lambda>k sg d. k = 7 \<and> sg = str2ab (js ''SIG'') \<and> d = str2ab (js ''hi'')),
      others = (\<lambda>i s. s)\<rparr>"

definition exampleState :: state where
  "exampleState =
     \<lparr>DNS_DOH_RESOLVER = Some (js ''https://doh.example/dns-query''),
      TAB_ACTION_MAP = Map.empty,
      TAB_RESPONSES_MAP = [1 \<mapsto> 0],
      heap = (\<lambda>a. if a = 0
                  then [exampleUrl \<mapsto> \<lparr>ab = str2ab (js ''hi''), blob = str2ab (js ''hi'')\<rparr>,
                        exampleImage \<mapsto> \<lparr>ab = str2ab (js ''png''), blob = str2ab (js ''png'')\<rparr>]
                  else Map.empty),
      nextAddr = 1,
      TAB_RESPONSES_ENCODING_MAP = Map.empty,
      VALIDATION_RESULT_MAP = Map.empty,
      trace = []\<rparr>"

definition exampleResponse :: "jsstring \<Rightarrow> header list \<Rightarrow> details" where
  "exampleResponse u hs = \<lparr>requestId = js ''42'', tabId = 1, url = u, responseHeaders = hs\<rparr>"

text \<open>A decoder for the examples: one code unit per byte, nothing held back.\<close>

definition exampleDecoder :: "unit textDecoder" where
  "exampleDecoder =
     \<lparr>newDecoder = (\<lambda>label. ()),
      decodeStream = (\<lambda>d eventData. (map ucast eventData, d)),
      decodeEnd = (\<lambda>d. [])\<rparr>"

definition exampleCapture :: "unit capture" where
  "exampleCapture =
     \<lparr>request = \<lparr>requestId = js ''42'', tabId = 1, url = exampleUrl, responseHeaders = []\<rparr>,
      decoder = None, responseChunksArrayBuffer = [], responseChunks = []\<rparr>"

text \<open>A capture whose blob bytes and text bytes differ; a tab already marked.\<close>

definition twoViews :: state where
  "twoViews = exampleState\<lparr>heap := (\<lambda>a. [exampleUrl \<mapsto> \<lparr>ab = str2ab (js ''hi''), blob = [0xFF]\<rparr>])\<rparr>"

definition afterFailure :: state where
  "afterFailure = exampleState\<lparr>VALIDATION_RESULT_MAP := [1 \<mapsto> ''untrusted'']\<rparr>"

text \<open>
  The tab's main resource resolved to \<open>enforce\<close>; afterwards the DoH endpoint stops
  resolving.
\<close>

definition enforcedTab :: state where
  "enforcedTab = exampleState\<lparr>TAB_ACTION_MAP := [1 \<mapsto> Some (js ''enforce'')]\<rparr>"

definition offlineBrowser :: "(nat, state) browser" where
  "offlineBrowser = exampleBrowser\<lparr>dnsResolve := \<lambda>a. None\<rparr>"

text \<open>
  The tab's main resource met a DoH failure, which left the \<open>doh-failure\<close> marker as
  the tab's action; an image of the page then completes with a signature header, while
  DoH works again.
\<close>

definition dohMarkedTab :: state where
  "dohMarkedTab = exampleState\<lparr>TAB_ACTION_MAP := [1 \<mapsto> Some (js ''doh-failure'')]\<rparr>"

definition signedImage :: details where
  "signedImage =
     exampleResponse exampleImage [\<lparr>hname = js ''X-ARC-Signature'', hvalue = js ''U0lH''\<rparr>]"

subsection \<open>The listener over a sequence of completed responses\<close>

text \<open>
  \<open>onCompleted\<close> calls \<open>verifyResponseContent\<close> once per response; each call has its own
  awaited results (its browser). Whether a call returned or threw, the state it left stays.
\<close>

fun runResponses :: "(('k, state) browser \<times> details) list \<Rightarrow> state \<Rightarrow> state" where
  "runResponses [] s = s"
| "runResponses ((w, response) # rest) s =
     runResponses rest (snd (verifyResponseContent w response s))"

text \<open>The tab's entry holds one of the two failure verdicts.\<close>

definition failureRecorded :: "tabId \<Rightarrow> state \<Rightarrow> bool" where
  "failureRecorded t s =
     (VALIDATION_RESULT_MAP s t = Some ''untrusted''
      \<or> VALIDATION_RESULT_MAP s t = Some ''doh-failure'')"

section \<open>The earlier verifier, which polls for the captured response (unnamed/part_002)\<close>

text \<open>
  This snapshot keys its maps by URL: \<open>RESPONSE_MAP\<close> holds the captured bytes,
  \<open>VALIDATION_RESULT_MAP\<close> the verdicts. The latter is asked for its \<open>size\<close>, so it
  is a list of pairs with distinct keys. Names that the final verifier also uses carry the
  suffix \<open>_p\<close>.
\<close>

definition HARC_HEADER_DIGEST :: jsstring where
  "HARC_HEADER_DIGEST = js ''x-arc-digest''"

definition APP_CONTENT_TYPE_TO_VERIFY :: "jsstring list" where
  "APP_CONTENT_TYPE_TO_VERIFY =
     [js ''application/javascript'', js ''application/json'', js ''application/ld+json'',
      js ''application/xml'', js ''application/atom+xml'']"

definition VALIDATION_RESULT_MAP_LIMIT :: nat where
  "VALIDATION_RESULT_MAP_LIMIT = 512"

record state_p =
  DNS_DOH_RESOLVER_p :: jsstring
  RESPONSE_MAP :: "jsstring \<rightharpoonup> byte list"
  VALIDATION_RESULT_MAP_p :: "(jsstring \<times> string) list"
  trace_p :: "effect list"

definition emit_p :: "effect \<Rightarrow> state_p \<Rightarrow> state_p" where
  "emit_p e s = s\<lparr>trace_p := trace_p s @ [e]\<rparr>"

definition sleep_p :: "('k, state_p) browser \<Rightarrow> nat \<Rightarrow> nat \<Rightarrow> state_p \<Rightarrow> state_p" where
  "sleep_p w i ms s =
     (let s1 = emit_p (Sleep ms) s in (others w i s1)\<lparr>trace_p := trace_p s1\<rparr>)"

definition setResult :: "jsstring \<Rightarrow> string \<Rightarrow> state_p \<Rightarrow> state_p" where
  \<comment> \<open>\<open>VALIDATION_RESULT_MAP.set(url, result)\<close>\<close>
  "setResult u result s =
     s\<lparr>VALIDATION_RESULT_MAP_p := AList.update u result (VALIDATION_RESULT_MAP_p s)\<rparr>"

text \<open>Lines 415-433.\<close>

definition dohFailureMsg :: string where
  "dohFailureMsg =
     ''Unable to validate HARC signature due to DNS-over-HTTPS resolution error. Proceed with caution.''"

definition invokeFailure_p :: "jsstring option \<Rightarrow> state_p \<Rightarrow> state_p" where
  "invokeFailure_p action s =
     (if action = Some (js ''doh-failure'') then emit_p (ExecuteAlert dohFailureMsg) s
      else emit_p (ExecuteFile (if action = Some (js ''enforce'') then ''src/actions/block.js''
                                else ''src/actions/warn.js'')) s)"

text \<open>Lines 473-516: as in the final verifier, but any first field is taken as the
  action.\<close>

definition getHARCDNSPayload_p ::
  "('k, state_p) browser \<Rightarrow> state_p \<Rightarrow> jsstring \<Rightarrow> jsstring option \<times> jsstring option" where
  "getHARCDNSPayload_p w s u =
     (if \<not> validateDohServer w (Some (DNS_DOH_RESOLVER_p s))
      then (Some (js ''doh-failure''), None)
      else
        (case dohQuery w (Some (DNS_DOH_RESOLVER_p s)) (dnsQueryDomain w u) of
           None \<Rightarrow> (Some (js ''doh-failure''), None)
         | Some answers \<Rightarrow>
             if length answers = 0 then (None, None)
             else
               (let payload = split 0x3B (hd answers)
                in if length payload = 1
                   then (Some (js ''warn''), Some (trim (payload ! 0)))
                   else if length payload = 2
                   then (Some (toLowerCase (trim (payload ! 0))), Some (trim (payload ! 1)))
                   else (None, None))))"

text \<open>Lines 536-560: the content type and the decoded signature; a signature that does
  not decode is logged and leaves \<open>signature\<close> as it was.\<close>

definition scanHeaders_p ::
  "('k, 's) browser \<Rightarrow> header list \<Rightarrow> jsstring \<times> byte list option" where
  "scanHeaders_p w hs =
     fold (\<lambda>h (contentType, signature).
             if toLowerCase (hname h) = HARC_HEADER_DIGEST then (contentType, signature)
             else if toLowerCase (hname h) = HARC_HEADER_SIGNATURE
             then (case atob w (trim (hvalue h)) of
                     None \<Rightarrow> (contentType, signature)
                   | Some decoded \<Rightarrow> (contentType, Some (str2ab decoded)))
             else if toLowerCase (hname h) = js ''content-type''
             then (trim (hvalue h), signature)
             else (contentType, signature))
          hs ([], None)"

text \<open>Lines 562-565.\<close>

definition limitResults :: "state_p \<Rightarrow> state_p" where
  "limitResults s =
     (if length (VALIDATION_RESULT_MAP_p s) > VALIDATION_RESULT_MAP_LIMIT
      then s\<lparr>VALIDATION_RESULT_MAP_p := []\<rparr>
      else s)"

text \<open>Lines 633-643: wait up to five seconds for the response content.\<close>

function waitForContent :: "('k, state_p) browser \<Rightarrow> jsstring \<Rightarrow> nat \<Rightarrow> state_p \<Rightarrow> state_p" where
  "waitForContent w u i s =
     (if i < 5
      then (if RESPONSE_MAP s u \<noteq> None then s
            else waitForContent w u (i + 1) (sleep_p w i 1000 s))
      else s)"
  by pat_completeness auto
termination
  by (relation "measure (\<lambda>(w, u, i, s). 5 - i)") auto

declare waitForContent.simps [simp del]

text \<open>Lines 633-672: the wait, then the verification of what was captured.\<close>

definition verifyCaptured ::
  "('k, state_p) browser \<Rightarrow> details \<Rightarrow> jsstring option \<Rightarrow> 'k \<Rightarrow> byte list \<Rightarrow> state_p \<Rightarrow> state_p" where
  "verifyCaptured w response action publicKey signature s =
     (let s1 = waitForContent w (url response) 0 s
      in case RESPONSE_MAP s1 (url response) of
           None \<Rightarrow> invokeFailure_p action (setResult (url response) ''untrusted'' s1)
         | Some captured \<Rightarrow>
             (let s2 = emit_p (SubtleVerify captured) s1;
                  signatureVerified = verify w publicKey signature captured;
                  s3 = s2\<lparr>RESPONSE_MAP := (RESPONSE_MAP s2)(url response := None)\<rparr>
              in if \<not> signatureVerified
                 then invokeFailure_p action (setResult (url response) ''untrusted'' s3)
                 else setResult (url response) ''trusted'' s3))"

text \<open>
  Lines 525-677. The body runs in a promise whose rejections are logged, so the handler
  always returns; \<open>tabs[0].url\<close> of an empty result rejects before anything is changed.
\<close>

definition verifyResponseContent_p ::
  "('k, state_p) browser \<Rightarrow> details \<Rightarrow> state_p \<Rightarrow> state_p" where
  "verifyResponseContent_p w response s =
     (case tabsQuery w of
        None \<Rightarrow> s
      | Some tabUrl \<Rightarrow>
          if url response \<noteq> tabUrl then s
          else
            (case scanHeaders_p w (responseHeaders response) of
               (contentType, signature) \<Rightarrow>
                 (let s1 = limitResults s
                  in if \<not> startsWith contentType (js ''text/'')
                        \<and> contentType \<notin> set APP_CONTENT_TYPE_TO_VERIFY
                     then setResult (url response) ''ignored-resource'' s1
                     else
                       (let dnsPayload = getHARCDNSPayload_p w s1 (url response);
                            action = fst dnsPayload;
                            publicKeyDer = snd dnsPayload
                        in case signature of
                             None \<Rightarrow>
                               if action = None \<and> publicKeyDer = None
                               then s1\<lparr>VALIDATION_RESULT_MAP_p :=
                                         AList.delete (url response) (VALIDATION_RESULT_MAP_p s1)\<rparr>
                               else invokeFailure_p action
                                      (setResult (url response) ''untrusted'' s1)
                           | Some sig \<Rightarrow>
                               (case publicKeyDer of
                                  None \<Rightarrow>
                                    invokeFailure_p action
                                      (setResult (url response)
                                         (if action = Some (js ''doh-failure'')
                                          then ''doh-failure'' else ''untrusted'') s1)
                                | Some der \<Rightarrow>
                                    (case importPublicKey w publicKeyDer of
                                       None \<Rightarrow>
                                         invokeFailure_p action
                                           (setResult (url response) ''untrusted'' s1)
                                     | Some publicKey \<Rightarrow>
                                         verifyCaptured w response action publicKey sig s1))))))"

subsection \<open>A concrete run\<close>

text \<open>The page of \<open>exampleUrl\<close>, signed, whose captured content never arrives.\<close>

definition exampleBrowser_p :: "(nat, state_p) browser" where
  "exampleBrowser_p =
     \<lparr>tabsGet = (\<lambda>t. Some exampleUrl),
      tabsQuery = Some exampleUrl,
      urlHostname = (\<lambda>u. js ''a.example''),
      pslParse = (\<lambda>h. (None, Some (js ''a.example''))),
      dnsResolve = (\<lambda>a. Some 1),
      dohQuery = (\<lambda>a q. Some [js ''enforce;S0VZ'']),
      atob = (\<lambda>x. if x = js ''S0VZ'' then Some (js ''KEY'')
                  else if x = js ''U0lH'' then Some (js ''SIG'')
                  else None),
      importKey = (\<lambda>der. if der = str2ab (js ''KEY'') then Some 7 else None),
      verify = (\<lambda>k sg d. k = 7 \<and> sg = str2ab (js ''SIG'') \<and> d = str2ab (js ''hi'')),
      others = (\<lambda>i s. s)\<rparr>"

definition exampleState_p :: state_p where
  "exampleState_p =
     \<lparr>DNS_DOH_RESOLVER_p = js ''https://doh.example/dns-query'',
      RESPONSE_MAP = Map.empty,
      VALIDATION_RESULT_MAP_p = [],
      trace_p = []\<rparr>"

definition signedPage :: details where
  "signedPage =
     \<lparr>requestId = js ''42'', tabId = 1, url = exampleUrl,
      responseHeaders =
        [\<lparr>hname = js ''Content-Type'', hvalue = js ''text/html''\<rparr>,
         \<lparr>hname = js ''X-ARC-Signature'', hvalue = js ''U0lH''\<rparr>]\<rparr>"

section \<open>The signing proxy (bin.js, the server of lines 363-891)\<close>

subsection \<open>Buffers and strings\<close>

text \<open>
  \<open>Buffer.toString(encoding)\<close> and \<open>response.end(content, encoding)\<close> are Node's.
  With \<open>"binary"\<close> (Latin-1) a byte is a code unit and back (the low eight bits). With
  \<open>"utf-8"\<close> decoding follows the WHATWG decoder: an ill-formed sequence becomes U+FFFD
  and decoding resumes at the offending byte; a code point above U+FFFF is a surrogate
  pair. Encoding writes one to four bytes per code point, U+FFFD for a lone surrogate.
\<close>

datatype bufferEncoding = Binary | Utf8

definition codeUnits :: "nat \<Rightarrow> jsstring" where
  "codeUnits cp =
     (if cp < 0x10000 then [of_nat cp]
      else [of_nat (0xD800 + (cp - 0x10000) div 0x400),
            of_nat (0xDC00 + (cp - 0x10000) mod 0x400)])"

text \<open>The decoder between characters reads a lead byte: output, and what it now expects
  (bytes still needed, code point so far, bounds of the next byte).\<close>

definition utf8_lead :: "byte \<Rightarrow> jsstring \<times> (nat \<times> nat \<times> nat \<times> nat) option" where
  "utf8_lead b =
     (let n = unat b
      in if n \<le> 0x7F then ([of_nat n], None)
         else if 0xC2 \<le> n \<and> n \<le> 0xDF then ([], Some (1, n - 0xC0, 0x80, 0xBF))
         else if 0xE0 \<le> n \<and> n \<le> 0xEF
         then ([], Some (2, n - 0xE0, if n = 0xE0 then 0xA0 else 0x80,
                         if n = 0xED then 0x9F else 0xBF))
         else if 0xF0 \<le> n \<and> n \<le> 0xF4
         then ([], Some (3, n - 0xF0, if n = 0xF0 then 0x90 else 0x80,
                         if n = 0xF4 then 0x8F else 0xBF))
         else ([0xFFFD], None))"

fun utf8_run :: "(nat \<times> nat \<times> nat \<times> nat) option \<Rightarrow> byte list \<Rightarrow> jsstring" where
  "utf8_run None [] = []"
| "utf8_run (Some st) [] = [0xFFFD]"
| "utf8_run None (b # bs) = (case utf8_lead b of (out, st) \<Rightarrow> out @ utf8_run st bs)"
| "utf8_run (Some (needed, cp, lower, upper)) (b # bs) =
     (if unat b < lower \<or> upper < unat b
      then 0xFFFD # (case utf8_lead b of (out, st) \<Rightarrow> out @ utf8_run st bs)
      else if needed = 1 then codeUnits (cp * 64 + (unat b - 0x80)) @ utf8_run None bs
      else utf8_run (Some (needed - 1, cp * 64 + (unat b - 0x80), 0x80, 0xBF)) bs)"

definition utf8_bytes :: "nat \<Rightarrow> byte list" where
  "utf8_bytes cp =
     (if cp < 0x80 then [of_nat cp]
      else if cp < 0x800 then [of_nat (0xC0 + cp div 64), of_nat (0x80 + cp mod 64)]
      else if cp < 0x10000
      then [of_nat (0xE0 + cp div 4096), of_nat (0x80 + cp div 64 mod 64),
            of_nat (0x80 + cp mod 64)]
      else [of_nat (0xF0 + cp div 262144), of_nat (0x80 + cp div 4096 mod 64),
            of_nat (0x80 + cp div 64 mod 64), of_nat (0x80 + cp mod 64)])"

definition scalar :: "jschar \<Rightarrow> nat" where
  \<comment> \<open>a code unit on its own: itself, or U+FFFD for a surrogate\<close>
  "scalar c = (if 0xD800 \<le> c \<and> c \<le> 0xDFFF then 0xFFFD else unat c)"

fun utf8_encode :: "jsstring \<Rightarrow> byte list" where
  "utf8_encode [] = []"
| "utf8_encode [c] = utf8_bytes (scalar c)"
| "utf8_encode (c # d # cs) =
     (if 0xD800 \<le> c \<and> c \<le> 0xDBFF \<and> 0xDC00 \<le> d \<and> d \<le> 0xDFFF
      then utf8_bytes (0x10000 + (unat c - 0xD800) * 0x400 + (unat d - 0xDC00))
             @ utf8_encode cs
      else utf8_bytes (scalar c) @ utf8_encode (d # cs))"

definition bufferToString :: "bufferEncoding \<Rightarrow> byte list \<Rightarrow> jsstring" where
  "bufferToString enc buffer =
     (case enc of Binary \<Rightarrow> map ucast buffer | Utf8 \<Rightarrow> utf8_run None buffer)"

definition stringToBytes :: "bufferEncoding \<Rightarrow> jsstring \<Rightarrow> byte list" where
  "stringToBytes enc str =
     (case enc of Binary \<Rightarrow> map ucast str | Utf8 \<Rightarrow> utf8_encode str)"

subsection \<open>parseInt and the response's headers\<close>

text \<open>
  \<open>parseInt(x, 10)\<close> of a string: leading white space, an optional sign, then the
  longest run of decimal digits; \<open>None\<close> is \<open>NaN\<close>. (Exact as long as the value is below
  \<open>2^53\<close>.) A header value is a string, or the number given to \<open>setHeader\<close>.
\<close>

definition isDigit :: "jschar \<Rightarrow> bool" where
  "isDigit c = (0x30 \<le> c \<and> c \<le> 0x39)"

definition digitsValue :: "jsstring \<Rightarrow> nat" where
  "digitsValue ds = foldl (\<lambda>acc c. acc * 10 + (unat c - 0x30)) 0 ds"

definition parseInt10 :: "jsstring \<Rightarrow> int option" where
  "parseInt10 str =
     (let t = dropWhile isWhiteSpace str;
          negative = (case t of [] \<Rightarrow> False | c # _ \<Rightarrow> c = 0x2D);
          r = (case t of [] \<Rightarrow> [] | c # cs \<Rightarrow> if c = 0x2B \<or> c = 0x2D then cs else t);
          ds = takeWhile isDigit r
      in if ds = [] then None
         else Some (if negative then - int (digitsValue ds) else int (digitsValue ds)))"

datatype headerValue = HStr jsstring | HNum nat

definition parseIntValue :: "headerValue \<Rightarrow> int option" where
  "parseIntValue v = (case v of HStr str \<Rightarrow> parseInt10 str | HNum n \<Rightarrow> Some (int n))"

text \<open>The outgoing headers, kept by Node under the lower-cased name, with the name as
  given.\<close>

type_synonym outHeaders = "jsstring \<rightharpoonup> jsstring \<times> headerValue"

definition setHeader :: "jsstring \<Rightarrow> headerValue \<Rightarrow> outHeaders \<Rightarrow> outHeaders" where
  "setHeader name v h = h(toLowerCase name \<mapsto> (name, v))"

definition hasHeader :: "jsstring \<Rightarrow> outHeaders \<Rightarrow> bool" where
  "hasHeader name h = (h (toLowerCase name) \<noteq> None)"

definition getHeader :: "jsstring \<Rightarrow> outHeaders \<Rightarrow> headerValue option" where
  "getHeader name h = map_option snd (h (toLowerCase name))"

subsection \<open>The response handler\<close>

definition HARC_HEADER_ALGO_srv :: jsstring where
  "HARC_HEADER_ALGO_srv = js ''X-ARC-ALGO''"

definition HARC_HEADER_DIGEST_srv :: jsstring where
  "HARC_HEADER_DIGEST_srv = js ''X-ARC-DIGEST''"

definition HARC_HEADER_SIGNATURE_srv :: jsstring where
  "HARC_HEADER_SIGNATURE_srv = js ''X-ARC-SIGNATURE''"

definition APP_CONTENT_TYPE_TO_SIGN :: "jsstring list" where
  "APP_CONTENT_TYPE_TO_SIGN =
     [js ''application/javascript'', js ''application/json'', js ''application/ld+json'',
      js ''application/xml'', js ''application/atom+xml'']"

text \<open>
  What the handler uses from outside the program: \<open>zlib.gunzipSync\<close> (\<open>None\<close> when it
  throws), the Base64 text of \<open>subtle.digest\<close> and of \<open>subtle.sign\<close> under the HARC key,
  and the command line's \<open>digestHeader\<close>.
\<close>

record proxy =
  gunzipSync :: "byte list \<Rightarrow> byte list option"
  subtleDigest :: "byte list \<Rightarrow> jsstring"
  subtleSign :: "byte list \<Rightarrow> jsstring"
  digestHeader :: bool

text \<open>The response as ended: its headers, and \<open>response.end(content, encoding)\<close>.\<close>

record serverResponse =
  headersOut :: outHeaders
  endContent :: jsstring
  endEncoding :: bufferEncoding

definition bodyBytes :: "serverResponse \<Rightarrow> byte list" where
  "bodyBytes r = stringToBytes (endEncoding r) (endContent r)"

text \<open>Lines 655-660: a header of the upstream response, lower-cased, \<open>"-"\<close> when absent.
  \<open>proxyRes.headers\<close> is an object: a list of pairs with distinct names, which Node has
  lower-cased.\<close>

definition headerOrDash :: "(jsstring \<times> jsstring) list \<Rightarrow> jsstring \<Rightarrow> jsstring" where
  "headerOrDash hs name =
     toLowerCase (case map_of hs name of None \<Rightarrow> js ''-'' | Some v \<Rightarrow> v)"

text \<open>Lines 680-685: copy the upstream headers, all but \<open>content-encoding\<close>.\<close>

definition copyHeaders :: "(jsstring \<times> jsstring) list \<Rightarrow> outHeaders \<Rightarrow> outHeaders" where
  "copyHeaders hs h =
     fold (\<lambda>(k, v) h'. if toLowerCase k \<noteq> js ''content-encoding'' then setHeader k (HStr v) h'
                       else h')
          hs h"

text \<open>Lines 687-697.\<close>

definition fixContentLength :: "jsstring \<Rightarrow> outHeaders \<Rightarrow> outHeaders" where
  "fixContentLength content h =
     (if hasHeader (js ''content-length'') h
      then (if (case getHeader (js ''content-length'') h of
                  None \<Rightarrow> None
                | Some v \<Rightarrow> parseIntValue v) \<noteq> Some (int (length content))
            then setHeader (js ''content-length'') (HNum (length content)) h
            else h)
      else h)"

text \<open>Lines 702-736.\<close>

definition signContent :: "proxy \<Rightarrow> jsstring \<Rightarrow> jsstring \<Rightarrow> outHeaders \<Rightarrow> outHeaders" where
  "signContent z contentType content h =
     (if includes_str contentType (js ''text/'') \<or> contentType \<in> set APP_CONTENT_TYPE_TO_SIGN
      then
        (let h1 = setHeader HARC_HEADER_ALGO_srv (HStr (js ''ECDSA_P-256; SHA-256'')) h;
             h2 = (if digestHeader z
                   then setHeader HARC_HEADER_DIGEST_srv (HStr (subtleDigest z (str2ab content))) h1
                   else h1)
         in setHeader HARC_HEADER_SIGNATURE_srv (HStr (subtleSign z (str2ab content))) h2)
      else h)"

text \<open>Lines 651-741: the \<open>end\<close> event of the upstream response, given its headers and the
  chunks the \<open>data\<close> events pushed. \<open>None\<close>: \<open>gunzipSync\<close> threw and nothing was sent.
  The status line, copied from the upstream before any data arrives, and the request log
  are left out.\<close>

definition proxyResEnd ::
  "proxy \<Rightarrow> (jsstring \<times> jsstring) list \<Rightarrow> byte list list \<Rightarrow> serverResponse option" where
  "proxyResEnd z hs responseContent =
     (let contentType = headerOrDash hs (js ''content-type'');
          contentEncoding = headerOrDash hs (js ''content-encoding'');
          enc = (if includes_str contentType (js ''charset=utf-8'') then Utf8 else Binary);
          raw = (if toLowerCase contentEncoding = js ''gzip''
                 then gunzipSync z (concat responseContent)
                 else Some (concat responseContent))
      in case raw of
           None \<Rightarrow> None
         | Some buffer \<Rightarrow>
             (let content = bufferToString enc buffer;
                  h1 = copyHeaders hs Map.empty;
                  h2 = fixContentLength content h1;
                  h3 = signContent z contentType content h2
              in Some \<lparr>headersOut = h3, endContent = content, endEncoding = enc\<rparr>))"

text \<open>
  Eligibility as the specification words it, for comparison: the content type without
  its parameters, compared case-insensitively.
\<close>

definition spec_isEligible :: "jsstring \<Rightarrow> bool" where
  "spec_isEligible contentType =
     (let mediaType = toLowerCase (trim (takeWhile (\<lambda>c. c \<noteq> 0x3B) contentType))
      in startsWith mediaType (js ''text/'') \<or> mediaType \<in> set APP_CONTENT_TYPE_TO_SIGN)"

subsection \<open>A concrete proxy\<close>

text \<open>It inflates one compressed body (standing for the gzip of the two UTF-8 bytes of
  U+00E9) and signs with fixed texts.\<close>

definition exampleGzip :: "byte list" where
  "exampleGzip = [0x1F, 0x8B, 0x08, 0x00]"

definition exampleProxy :: proxy where
  "exampleProxy =
     \<lparr>gunzipSync = (\<lambda>b. if b = exampleGzip then Some [0xC3, 0xA9] else None),
      subtleDigest = (\<lambda>b. js ''RElH''),
      subtleSign = (\<lambda>b. js ''U0lH''),
      digestHeader = False\<rparr>"

section \<open>Theorems\<close>

subsection \<open>str2ab\<close>

lemma str2ab_loop_eq:
  "length buffer = length str \<Longrightarrow> i \<le> length str \<Longrightarrow>
   str2ab_loop str i buffer = take i buffer @ map ucast (drop i str)"
proof (induction str i buffer rule: str2ab_loop.induct)
  case (1 str i buffer)
  show ?case
  proof (cases "i < length str")
    case True
    have step: "str2ab_loop str i buffer
                = str2ab_loop str (i + 1) (buffer[i := ucast (str ! i)])"
      using True by (subst str2ab_loop.simps) simp
    have ih: "str2ab_loop str (i + 1) (buffer[i := ucast (str ! i)])
              = take (i + 1) (buffer[i := ucast (str ! i)]) @ map ucast (drop (i + 1) str)"
      using "1.IH" [OF True] "1.prems" True by simp
    have tk: "take (i + 1) (buffer[i := ucast (str ! i)]) = take i buffer @ [ucast (str ! i)]"
      using "1.prems" True by (simp add: take_Suc_conv_app_nth)
    have dr: "drop i str = str ! i # drop (i + 1) str"
      using True by (simp add: Cons_nth_drop_Suc)
    show ?thesis
      by (simp only: step ih tk dr list.map append_assoc append.simps)
  next
    case False
    then have "i = length str" using "1.prems" by simp
    then show ?thesis
      using "1.prems" by (subst str2ab_loop.simps) simp
  qed
qed

lemma str2ab_map: "str2ab str = map ucast str"
  by (simp add: str2ab_def str2ab_loop_eq)

lemma ucast_low_byte: "unat (ucast (c :: jschar) :: byte) = unat c mod 256"
  by (simp add: unsigned_ucast_eq take_bit_eq_mod)

text \<open>
  C10. For every string \<open>s\<close>, \<open>str2ab s\<close> has exactly \<open>length s\<close> bytes and its i-th
  byte is the i-th code unit modulo 256. Hence, when \<open>s\<close> contains a code unit of 256 or
  more, some byte differs from its code unit (the high bits are lost) and a different
  string has the same bytes: the conversion is not injective.
\<close>

theorem str2ab_low_bytes_not_injective:
  "length (str2ab s) = length s
   \<and> (\<forall>i < length s. unat (str2ab s ! i) = unat (s ! i) mod 256)
   \<and> ((\<exists>c \<in> set s. 256 \<le> unat c) \<longrightarrow>
        (\<exists>i < length s. unat (str2ab s ! i) \<noteq> unat (s ! i))
        \<and> (\<exists>t. t \<noteq> s \<and> str2ab t = str2ab s)
        \<and> \<not> inj str2ab)"
proof (intro conjI impI)
  show "length (str2ab s) = length s"
    by (simp add: str2ab_map)
  show "\<forall>i < length s. unat (str2ab s ! i) = unat (s ! i) mod 256"
    by (simp add: str2ab_map ucast_low_byte)
next
  assume "\<exists>c \<in> set s. 256 \<le> unat c"
  then obtain i where i: "i < length s" and big: "256 \<le> unat (s ! i)"
    by (auto simp: in_set_conv_nth)
  have byte_i: "unat (str2ab s ! i) = unat (s ! i) mod 256"
    using i by (simp add: str2ab_map ucast_low_byte)
  have "unat (s ! i) mod 256 < 256" by simp
  with big byte_i have ne: "unat (str2ab s ! i) \<noteq> unat (s ! i)" by linarith
  show "\<exists>i < length s. unat (str2ab s ! i) \<noteq> unat (s ! i)"
    using i ne by blast
  define t where "t = map (\<lambda>c. ucast (ucast c :: byte) :: jschar) s"
  have low: "(ucast (ucast (ucast c :: byte) :: jschar) :: byte) = ucast c" for c :: jschar
    by (rule bit_word_eqI) (simp add: bit_ucast_iff)
  have same: "str2ab t = str2ab s"
    by (simp add: str2ab_map t_def low)
  have "unat (ucast (ucast c :: byte) :: jschar) = unat c mod 256" for c :: jschar
    by (simp add: unsigned_ucast_eq take_bit_eq_mod unat_mod_distrib)
  then have "unat (t ! i) = unat (s ! i) mod 256"
    using i by (simp only: t_def nth_map)
  with big have "t ! i \<noteq> s ! i"
    by (metis \<open>unat (s ! i) mod 256 < 256\<close> not_le)
  then have diff: "t \<noteq> s" by auto
  show "\<exists>t. t \<noteq> s \<and> str2ab t = str2ab s"
    using diff same by blast
  show "\<not> inj str2ab"
    using diff same by (auto simp: inj_def)
qed

theorem str2ab_low_bytes_not_injective_witness:
  "str2ab [0x141, 0x42] = [0x41, 0x42] \<and> str2ab [0x41, 0x42] = [0x41, 0x42]
   \<and> (\<exists>t. t \<noteq> [0x141, 0x42] \<and> str2ab t = str2ab [0x141, 0x42])"
  using str2ab_low_bytes_not_injective [of "[0x141, 0x42]"]
  by (simp add: str2ab_map)

subsection \<open>Evaluation rules\<close>

lemma js_Nil: "js [] = []" and js_Cons: "js (c # cs) = of_nat (of_char c) # js cs"
  by (simp_all add: js_def)

lemmas js_eval = js_Nil js_Cons
lemmas str_eval = trim_def toLowerCase_def toLowerCase_unit_def isWhiteSpace_def startsWith_def
  strOrNull_def
lemmas example_eval = exampleBrowser_def exampleState_def exampleResponse_def exampleUrl_def
  exampleImage_def
lemmas verifier_eval = verifyResponseContent_def getHARCDNSPayload_def dnsQueryDomain_def
  validateDohServer_def resolveAction_def checkResponse_def importPublicKey_def
  signatureHeader_def verifySignature_def deleteCaptured_def recordVerified_def
  recordNotEnabled_def invokeFailure_def emit_def HARC_DNS_SUBDOMAIN_def
  HARC_VALID_ACTIONS_def HARC_HEADER_SIGNATURE_def str2ab_map Let_def

subsection \<open>The TXT record\<close>

lemma getHARCDNSPayload_unresolvable:
  "\<not> validateDohServer w (DNS_DOH_RESOLVER s) \<Longrightarrow>
   getHARCDNSPayload w s u = (Some (js ''doh-failure''), None)"
  by (simp add: getHARCDNSPayload_def)

lemma getHARCDNSPayload_rejected:
  "dohQuery w (DNS_DOH_RESOLVER s) (dnsQueryDomain w u) = None \<Longrightarrow>
   getHARCDNSPayload w s u = (Some (js ''doh-failure''), None)"
  by (simp add: getHARCDNSPayload_def)

text \<open>
  C2, as stated, fails: the fields are trimmed before they are used. For the answer
  \<open>" warn;S0VZ"\<close> the first field as written, lower-cased, is \<open>" warn"\<close>, not a valid
  action, so the stated parse gives NotDeployed; the program answers \<open>warn\<close> with the key.
\<close>

theorem txt_fields_as_written_counterexample:
  "getHARCDNSPayload (exampleBrowser\<lparr>dohQuery := \<lambda>a q. Some [js '' warn;S0VZ'']\<rparr>)
     exampleState exampleUrl = (Some (js ''warn''), Some (js ''S0VZ''))
   \<and> spec_parseRecord [js '' warn;S0VZ''] = None"
  by (simp add: getHARCDNSPayload_def validateDohServer_def HARC_VALID_ACTIONS_def
      spec_parseRecord_def example_eval js_eval str_eval Let_def)

text \<open>
  C2, amended. When the DoH endpoint resolves and the TXT query returns, the first answer is
  split at \<open>;\<close> and every field is trimmed of white space: one field gives
  \<open>warn\<close> with the trimmed field as key; two fields give the trimmed, lower-cased first
  field as action and the trimmed second as key, provided that action is \<open>warn\<close> or
  \<open>enforce\<close>, and NotDeployed (\<open>[null, null]\<close>) otherwise; any other number of fields,
  and no answer at all, give NotDeployed.
\<close>

theorem getHARCDNSPayload_parse:
  assumes "validateDohServer w (DNS_DOH_RESOLVER s)"
    and "dohQuery w (DNS_DOH_RESOLVER s) (dnsQueryDomain w u) = Some answers"
  shows "(answers = [] \<longrightarrow> getHARCDNSPayload w s u = (None, None))
    \<and> (\<forall>first rest. answers = first # rest \<longrightarrow>
         (case split 0x3B first of
            [field] \<Rightarrow> getHARCDNSPayload w s u = (Some (js ''warn''), Some (trim field))
          | [field0, field1] \<Rightarrow>
              getHARCDNSPayload w s u =
                (if toLowerCase (trim field0) = js ''warn''
                    \<or> toLowerCase (trim field0) = js ''enforce''
                 then (Some (toLowerCase (trim field0)), Some (trim field1))
                 else (None, None))
          | _ \<Rightarrow> getHARCDNSPayload w s u = (None, None)))"
proof (intro conjI allI impI)
  assume "answers = []"
  then show "getHARCDNSPayload w s u = (None, None)"
    using assms by (simp add: getHARCDNSPayload_def)
next
  fix first rest
  assume a: "answers = first # rest"
  have valid: "x \<notin> set HARC_VALID_ACTIONS \<longleftrightarrow> \<not> (x = js ''warn'' \<or> x = js ''enforce'')" for x
    by (auto simp: HARC_VALID_ACTIONS_def)
  show "case split 0x3B first of
            [field] \<Rightarrow> getHARCDNSPayload w s u = (Some (js ''warn''), Some (trim field))
          | [field0, field1] \<Rightarrow>
              getHARCDNSPayload w s u =
                (if toLowerCase (trim field0) = js ''warn''
                    \<or> toLowerCase (trim field0) = js ''enforce''
                 then (Some (toLowerCase (trim field0)), Some (trim field1))
                 else (None, None))
          | _ \<Rightarrow> getHARCDNSPayload w s u = (None, None)"
    using assms a
    by (auto simp: getHARCDNSPayload_def Let_def valid split: list.splits)
qed

text \<open>The amended C2 at two concrete records.\<close>

theorem getHARCDNSPayload_parse_witness:
  "getHARCDNSPayload (exampleBrowser\<lparr>dohQuery := \<lambda>a q. Some [js '' Enforce ;S0VZ '']\<rparr>)
     exampleState exampleUrl = (Some (js ''enforce''), Some (js ''S0VZ''))
   \<and> getHARCDNSPayload (exampleBrowser\<lparr>dohQuery := \<lambda>a q. Some [js ''enforce;A;B'']\<rparr>)
     exampleState exampleUrl = (None, None)"
  using getHARCDNSPayload_parse [of "exampleBrowser\<lparr>dohQuery := \<lambda>a q. Some [js '' Enforce ;S0VZ '']\<rparr>"
      exampleState exampleUrl "[js '' Enforce ;S0VZ '']"]
    getHARCDNSPayload_parse [of "exampleBrowser\<lparr>dohQuery := \<lambda>a q. Some [js ''enforce;A;B'']\<rparr>"
      exampleState exampleUrl "[js ''enforce;A;B'']"]
  by (simp add: validateDohServer_def example_eval js_eval str_eval)


subsection \<open>Verification against the two byte representations\<close>

lemma recordVerified_trace: "trace (recordVerified t s) = trace s @ [SetBadgeText t []]"
  by (simp add: recordVerified_def emit_def Let_def split: option.splits)

lemma recordVerified_untrusted:
  "VALIDATION_RESULT_MAP (recordVerified t s) t = Some ''untrusted'' \<Longrightarrow>
   VALIDATION_RESULT_MAP s t = Some ''untrusted''"
  by (auto simp: recordVerified_def emit_def Let_def split: option.splits if_splits)

lemma invokeFailure_untrusted:
  "action \<noteq> Some (js ''doh-failure'') \<Longrightarrow>
   VALIDATION_RESULT_MAP (invokeFailure t action s) t = Some ''untrusted''
   \<and> (\<exists>f. trace (invokeFailure t action s) =
          trace s @ [SetBadgeText t ''!'', SetBadgeBackgroundColor t [217, 0, 0, 255],
                     ExecuteScript t f])"
  by (simp add: invokeFailure_def emit_def Let_def)

lemma checkResponse_reaches_verifySignature:
  assumes "importPublicKey w publicKeyDer = Some publicKey"
    and "signatureHeader (responseHeaders response) = Some encoded"
    and "atob w encoded = Some decoded"
  shows "checkResponse w response tabResponses action publicKeyDer s
           = verifySignature w response tabResponses action publicKey (str2ab decoded) s"
  using assms by (simp add: checkResponse_def Let_def)

text \<open>
  What the last step does, for every captured entry, key and signature: it calls
  \<open>verify\<close> on the blob bytes and, only when that fails, on the \<open>str2ab\<close> bytes. If
  either call succeeds the verdict is the success update, no failure script is injected
  and \<open>untrusted\<close> is not newly recorded. When both fail \<open>invokeFailure\<close> is called
  with the action in force; it records \<open>untrusted\<close> and injects the failure script
  provided that action is not the \<open>doh-failure\<close> marker.
\<close>

theorem verifySignature_either_representation:
  assumes "heap s tabResponses (url response) = Some rd"
  shows "let t = tabId response;
             viaBlob = verify w publicKey signature (blob rd);
             viaText = verify w publicKey signature (ab rd);
             r = verifySignature w response tabResponses action publicKey signature s;
             calledBlob = emit (SubtleVerify (blob rd)) s;
             calledBoth = emit (SubtleVerify (ab rd)) calledBlob
         in (viaBlob \<longrightarrow>
               r = (Normal, recordVerified t (deleteCaptured tabResponses (url response) calledBlob)))
          \<and> (\<not> viaBlob \<and> viaText \<longrightarrow>
               r = (Normal, recordVerified t (deleteCaptured tabResponses (url response) calledBoth)))
          \<and> (\<not> viaBlob \<and> \<not> viaText \<longrightarrow>
               r = (Normal, invokeFailure t action (deleteCaptured tabResponses (url response) calledBoth)))
          \<and> (viaBlob \<or> viaText \<longrightarrow>
               (\<forall>f. ExecuteScript t f \<notin> set (drop (length (trace s)) (trace (snd r))))
               \<and> (VALIDATION_RESULT_MAP (snd r) t = Some ''untrusted''
                    \<longrightarrow> VALIDATION_RESULT_MAP s t = Some ''untrusted''))
          \<and> (\<not> viaBlob \<and> \<not> viaText \<and> action \<noteq> Some (js ''doh-failure'') \<longrightarrow>
               VALIDATION_RESULT_MAP (snd r) t = Some ''untrusted''
               \<and> (\<exists>f. last (trace (snd r)) = ExecuteScript t f))"
proof -
  let ?t = "tabId response"
  let ?u = "url response"
  let ?b = "emit (SubtleVerify (blob rd)) s"
  let ?bb = "emit (SubtleVerify (ab rd)) ?b"
  let ?r = "verifySignature w response tabResponses action publicKey signature s"
  have blob: "?r = (Normal, recordVerified ?t (deleteCaptured tabResponses ?u ?b))"
    if "verify w publicKey signature (blob rd)"
    using assms that by (simp add: verifySignature_def Let_def)
  have second: "?r = (Normal, recordVerified ?t (deleteCaptured tabResponses ?u ?bb))"
    if "\<not> verify w publicKey signature (blob rd)" "verify w publicKey signature (ab rd)"
    using assms that by (simp add: verifySignature_def Let_def)
  have none: "?r = (Normal, invokeFailure ?t action (deleteCaptured tabResponses ?u ?bb))"
    if "\<not> verify w publicKey signature (blob rd)" "\<not> verify w publicKey signature (ab rd)"
    using assms that by (simp add: verifySignature_def Let_def)
  have vr_del: "VALIDATION_RESULT_MAP (deleteCaptured tabResponses ?u x) = VALIDATION_RESULT_MAP x"
    and tr_del: "trace (deleteCaptured tabResponses ?u x) = trace x" for x
    by (simp_all add: deleteCaptured_def)
  have ok: "(\<forall>f. ExecuteScript ?t f \<notin> set (drop (length (trace s)) (trace (snd ?r))))
      \<and> (VALIDATION_RESULT_MAP (snd ?r) ?t = Some ''untrusted''
           \<longrightarrow> VALIDATION_RESULT_MAP s ?t = Some ''untrusted'')"
    if "verify w publicKey signature (blob rd) \<or> verify w publicKey signature (ab rd)"
  proof (cases "verify w publicKey signature (blob rd)")
    case True
    show ?thesis
      using recordVerified_untrusted [of ?t "deleteCaptured tabResponses ?u ?b"]
      by (auto simp: blob [OF True] recordVerified_trace tr_del vr_del emit_def)
  next
    case False
    with that have tx: "verify w publicKey signature (ab rd)" by simp
    show ?thesis
      using recordVerified_untrusted [of ?t "deleteCaptured tabResponses ?u ?bb"]
      by (auto simp: second [OF False tx] recordVerified_trace tr_del vr_del emit_def)
  qed
  have bad: "VALIDATION_RESULT_MAP (snd ?r) ?t = Some ''untrusted''
      \<and> (\<exists>f. last (trace (snd ?r)) = ExecuteScript ?t f)"
    if "\<not> verify w publicKey signature (blob rd)" "\<not> verify w publicKey signature (ab rd)"
       "action \<noteq> Some (js ''doh-failure'')"
    using invokeFailure_untrusted [OF that(3), of ?t "deleteCaptured tabResponses ?u ?bb"]
    by (auto simp: none [OF that(1,2)])
  show ?thesis
    unfolding Let_def using blob second none ok bad by blast
qed

text \<open>The same at a capture whose blob bytes fail and whose text bytes verify.\<close>

theorem verifySignature_either_representation_witness:
  "verifySignature exampleBrowser (exampleResponse exampleUrl []) 0 (Some (js ''enforce'')) 7
     (str2ab (js ''SIG'')) twoViews
   = (Normal, recordVerified 1 (deleteCaptured 0 exampleUrl
        (emit (SubtleVerify (str2ab (js ''hi''))) (emit (SubtleVerify [0xFF]) twoViews))))
   \<and> VALIDATION_RESULT_MAP (snd (verifySignature exampleBrowser (exampleResponse exampleUrl []) 0
        (Some (js ''enforce'')) 7 (str2ab (js ''SIG'')) twoViews)) 1 = Some ''trusted''"
  using verifySignature_either_representation [of twoViews 0 "exampleResponse exampleUrl []"
      "\<lparr>ab = str2ab (js ''hi''), blob = [0xFF]\<rparr>" exampleBrowser 7 "str2ab (js ''SIG'')"
      "Some (js ''enforce'')"]
  by (simp add: twoViews_def example_eval js_eval str2ab_map Let_def recordVerified_def
      deleteCaptured_def emit_def)



text \<open>
  C3 at a failing input. The tab's main resource met a DoH failure, so the tab's action
  is the \<open>doh-failure\<close> marker. An image of the page then completes: its domain's
  record resolves, the key imports, the signature header decodes, and the signature
  verifies against neither the blob bytes nor the \<open>str2ab\<close> bytes. Both verifications
  are attempted in turn and the entry is dropped, but the action handed to
  \<open>invokeFailure\<close> is the tab's marker: \<open>doh-failure\<close> is recorded, not
  \<open>untrusted\<close>, and no failure script is injected.
\<close>

theorem failed_verification_recorded_as_doh_failure:
  "getHARCDNSPayload exampleBrowser dohMarkedTab exampleImage
     = (Some (js ''enforce''), Some (js ''S0VZ''))
   \<and> importPublicKey exampleBrowser (Some (js ''S0VZ'')) = Some 7
   \<and> verifyResponseContent exampleBrowser signedImage dohMarkedTab
       = (Normal, dohMarkedTab
           \<lparr>heap := (\<lambda>a. if a = 0
                         then [exampleUrl \<mapsto> \<lparr>ab = str2ab (js ''hi''), blob = str2ab (js ''hi'')\<rparr>]
                         else Map.empty),
            VALIDATION_RESULT_MAP := [1 \<mapsto> ''doh-failure''],
            trace := [SubtleVerify (str2ab (js ''png'')), SubtleVerify (str2ab (js ''png'')),
                      SetBadgeText 1 ''!'', SetBadgeBackgroundColor 1 [217, 217, 41, 255]]\<rparr>)"
  by (simp add: dohMarkedTab_def signedImage_def verifier_eval example_eval js_eval str_eval
      waitForAction.simps fun_eq_iff)

subsection \<open>The trust state within one navigation\<close>

lemma recordVerified_keeps:
  assumes "failureRecorded t s"
  shows "VALIDATION_RESULT_MAP (recordVerified t' s) t = VALIDATION_RESULT_MAP s t"
proof (cases "t' = t")
  case True
  from assms show ?thesis
    unfolding failureRecorded_def
  proof (elim disjE)
    assume "VALIDATION_RESULT_MAP s t = Some ''untrusted''"
    then show ?thesis using True by (simp add: recordVerified_def emit_def Let_def)
  next
    assume "VALIDATION_RESULT_MAP s t = Some ''doh-failure''"
    then show ?thesis using True by (simp add: recordVerified_def emit_def Let_def)
  qed
next
  case False
  then show ?thesis
    by (simp add: recordVerified_def emit_def Let_def split: option.splits)
qed

lemma recordNotEnabled_keeps:
  assumes "failureRecorded t s"
  shows "VALIDATION_RESULT_MAP (recordNotEnabled t' s) t = VALIDATION_RESULT_MAP s t"
proof (cases "t' = t")
  case True
  from assms show ?thesis
    unfolding failureRecorded_def
  proof (elim disjE)
    assume "VALIDATION_RESULT_MAP s t = Some ''untrusted''"
    then show ?thesis using True by (simp add: recordNotEnabled_def emit_def Let_def)
  next
    assume "VALIDATION_RESULT_MAP s t = Some ''doh-failure''"
    then show ?thesis using True by (simp add: recordNotEnabled_def emit_def Let_def)
  qed
next
  case False
  then show ?thesis
    by (simp add: recordNotEnabled_def emit_def Let_def split: option.splits)
qed

lemma invokeFailure_keeps:
  assumes "failureRecorded t s"
  shows "failureRecorded t (invokeFailure t' action s)"
proof (cases "t' = t")
  case True
  then show ?thesis
    by (simp add: failureRecorded_def invokeFailure_def emit_def Let_def)
next
  case False
  then show ?thesis
    using assms by (simp add: failureRecorded_def invokeFailure_def emit_def Let_def)
qed

lemma sleep_keeps:
  assumes "\<forall>i s'. failureRecorded t s' \<longrightarrow> failureRecorded t (others w i s')"
    and "failureRecorded t s"
  shows "failureRecorded t (sleep w i ms s)"
proof -
  have "failureRecorded t (emit (Sleep ms) s)"
    using assms(2) by (simp add: failureRecorded_def emit_def)
  then have "failureRecorded t (others w i (emit (Sleep ms) s))"
    using assms(1) by blast
  then show ?thesis
    by (simp add: sleep_def Let_def failureRecorded_def)
qed

lemma waitForAction_keeps:
  "\<forall>i s'. failureRecorded t s' \<longrightarrow> failureRecorded t (others w i s') \<Longrightarrow>
   failureRecorded t s \<Longrightarrow> failureRecorded t (waitForAction w t' i s)"
proof (induction w t' i s rule: waitForAction.induct)
  case (1 w t' i s)
  show ?case
  proof (cases "i < 10 \<and> TAB_ACTION_MAP s t' = None")
    case True
    then have "waitForAction w t' i s = waitForAction w t' (i + 1) (sleep w i 1000 s)"
      by (subst waitForAction.simps) simp
    moreover have "failureRecorded t (sleep w i 1000 s)"
      using sleep_keeps [OF "1.prems"] .
    ultimately show ?thesis
      using "1.IH" "1.prems"(1) True by simp
  next
    case False
    then have "waitForAction w t' i s = s"
      by (subst waitForAction.simps) auto
    then show ?thesis using "1.prems" by simp
  qed
qed

lemma resolveAction_keeps:
  assumes "\<forall>i s'. failureRecorded t s' \<longrightarrow> failureRecorded t (others w i s')"
    and "failureRecorded t s"
  shows "failureRecorded t (snd (resolveAction w response tabResponses tabUrl action s))"
proof (cases "url response = tabUrl")
  case True
  then show ?thesis
    using assms(2) by (simp add: resolveAction_def failureRecorded_def)
next
  case False
  then show ?thesis
    using waitForAction_keeps [OF assms(1) assms(2), of "tabId response" 0]
    by (simp add: resolveAction_def Let_def)
qed

lemma verifySignature_keeps:
  assumes "failureRecorded t s"
  shows "failureRecorded t (snd (verifySignature w response tabResponses action publicKey signature s))"
proof (cases "heap s tabResponses (url response)")
  case None
  then show ?thesis using assms by (simp add: verifySignature_def)
next
  case (Some rd)
  have pre: "failureRecorded t (deleteCaptured tabResponses (url response) (emit e s))"
    and pre2: "failureRecorded t (deleteCaptured tabResponses (url response) (emit e' (emit e s)))"
    for e e'
    using assms by (simp_all add: failureRecorded_def deleteCaptured_def emit_def)
  have ok: "failureRecorded t (recordVerified t' x)" if "failureRecorded t x" for t' x
    using recordVerified_keeps [OF that, of t'] that by (simp add: failureRecorded_def)
  show ?thesis
    using Some
    by (simp add: verifySignature_def Let_def invokeFailure_keeps [OF pre]
        invokeFailure_keeps [OF pre2] ok [OF pre] ok [OF pre2])
qed

lemma checkResponse_keeps:
  assumes "failureRecorded t s"
  shows "failureRecorded t (snd (checkResponse w response tabResponses action publicKeyDer s))"
  by (simp add: checkResponse_def Let_def invokeFailure_keeps [OF assms]
      verifySignature_keeps [OF assms] split: option.splits)




lemma verifyResponseContent_keeps:
  assumes "\<forall>i s'. failureRecorded t s' \<longrightarrow> failureRecorded t (others w i s')"
    and "failureRecorded t s"
  shows "failureRecorded t (snd (verifyResponseContent w response s))"
proof -
  have ne: "failureRecorded t (recordNotEnabled (tabId response) s)"
    using recordNotEnabled_keeps [OF assms(2), of "tabId response"] assms(2)
    by (simp add: failureRecorded_def)
  have chk: "failureRecorded t
      (snd (case resolveAction w response a tabUrl action s of
              (action', s1) \<Rightarrow> checkResponse w response a action' pk s1))"
    for a tabUrl action pk
    using checkResponse_keeps [OF resolveAction_keeps [OF assms]]
    by (simp add: split_beta)
  show ?thesis
    using assms(2) ne chk
    by (simp add: verifyResponseContent_def Let_def split: option.splits)
qed

text \<open>
  C6. Once a tab's entry holds \<open>untrusted\<close> or \<open>doh-failure\<close>, it holds one of the two
  after any sequence of completed responses (of any tab, with any DNS answers, keys and
  signatures), as long as what runs during the timer sleeps does not reset it: it is
  never \<open>trusted\<close> again. A successful verification and an ignored-domain outcome leave
  the entry exactly as it was.
\<close>

theorem trust_state_never_upgraded:
  assumes "failureRecorded t s"
    and "\<forall>(w, response) \<in> set es.
           \<forall>i s'. failureRecorded t s' \<longrightarrow> failureRecorded t (others w i s')"
  shows "failureRecorded t (runResponses es s)
     \<and> VALIDATION_RESULT_MAP (runResponses es s) t \<noteq> Some ''trusted''
     \<and> VALIDATION_RESULT_MAP (recordVerified t' s) t = VALIDATION_RESULT_MAP s t
     \<and> VALIDATION_RESULT_MAP (recordNotEnabled t' s) t = VALIDATION_RESULT_MAP s t"
proof -
  have run: "failureRecorded t (runResponses es s)"
    using assms
  proof (induction es arbitrary: s)
    case Nil
    then show ?case by simp
  next
    case (Cons e es)
    obtain w response where e: "e = (w, response)" by (cases e)
    have "failureRecorded t (snd (verifyResponseContent w response s))"
      using verifyResponseContent_keeps [of t w s response] Cons.prems e by auto
    then show ?case
      using Cons.IH Cons.prems(2) e by simp
  qed
  then have "VALIDATION_RESULT_MAP (runResponses es s) t \<noteq> Some ''trusted''"
    by (auto simp: failureRecorded_def)
  with run show ?thesis
    using recordVerified_keeps [OF assms(1)] recordNotEnabled_keeps [OF assms(1)] by simp
qed




lemmas signedResponse_eval = verifier_eval example_eval js_eval str_eval

text \<open>C6 at a tab marked \<open>untrusted\<close> whose next response carries a valid signature.\<close>

theorem trust_state_never_upgraded_witness:
  "failureRecorded 1 afterFailure
   \<and> VALIDATION_RESULT_MAP
       (runResponses
          [(exampleBrowser,
            exampleResponse exampleUrl [\<lparr>hname = js ''X-ARC-Signature'', hvalue = js ''U0lH''\<rparr>])]
          afterFailure) 1 = Some ''untrusted''
   \<and> ExecuteScript 1 ''src/actions/block.js'' \<notin> set (trace (runResponses
          [(exampleBrowser,
            exampleResponse exampleUrl [\<lparr>hname = js ''X-ARC-Signature'', hvalue = js ''U0lH''\<rparr>])]
          afterFailure))"
  using trust_state_never_upgraded [of 1 afterFailure
      "[(exampleBrowser,
         exampleResponse exampleUrl [\<lparr>hname = js ''X-ARC-Signature'', hvalue = js ''U0lH''\<rparr>])]" 1]
  by (simp add: afterFailure_def failureRecorded_def signedResponse_eval)

subsection \<open>DoH failure\<close>

lemma invokeFailure_doh:
  "VALIDATION_RESULT_MAP (invokeFailure t (Some (js ''doh-failure'')) s) t = Some ''doh-failure''
   \<and> trace (invokeFailure t (Some (js ''doh-failure'')) s)
       = trace s @ [SetBadgeText t ''!'', SetBadgeBackgroundColor t [217, 217, 41, 255]]"
  by (simp add: invokeFailure_def emit_def Let_def)

lemma doh_failure_of_main_resource:
  assumes "DNS_DOH_RESOLVER s \<noteq> None" and "DNS_DOH_RESOLVER s \<noteq> Some (url response)"
    and "TAB_RESPONSES_MAP s (tabId response) = Some a"
    and "heap s a (url response) \<noteq> None"
    and "tabsGet w (tabId response) = Some (url response)"
    and "\<not> validateDohServer w (DNS_DOH_RESOLVER s)"
    and "importPublicKey w None = None"
  shows "verifyResponseContent w response s =
           (Normal, invokeFailure (tabId response) (Some (js ''doh-failure''))
              (s\<lparr>TAB_ACTION_MAP :=
                   (TAB_ACTION_MAP s)(tabId response \<mapsto> Some (js ''doh-failure''))\<rparr>))"
    and "VALIDATION_RESULT_MAP (snd (verifyResponseContent w response s)) (tabId response)
           = Some ''doh-failure''"
    and "trace (snd (verifyResponseContent w response s))
           = trace s @ [SetBadgeText (tabId response) ''!'',
                        SetBadgeBackgroundColor (tabId response) [217, 217, 41, 255]]"
proof -
  have p: "getHARCDNSPayload w s (url response) = (Some (js ''doh-failure''), None)"
    using assms(6) by (simp add: getHARCDNSPayload_def)
  show r: "verifyResponseContent w response s =
           (Normal, invokeFailure (tabId response) (Some (js ''doh-failure''))
              (s\<lparr>TAB_ACTION_MAP :=
                   (TAB_ACTION_MAP s)(tabId response \<mapsto> Some (js ''doh-failure''))\<rparr>))"
    using assms(1-5,7)
    by (auto simp: verifyResponseContent_def p resolveAction_def checkResponse_def Let_def)
  show "VALIDATION_RESULT_MAP (snd (verifyResponseContent w response s)) (tabId response)
           = Some ''doh-failure''"
    by (simp add: r invokeFailure_doh)
  show "trace (snd (verifyResponseContent w response s))
           = trace s @ [SetBadgeText (tabId response) ''!'',
                        SetBadgeBackgroundColor (tabId response) [217, 217, 41, 255]]"
    by (simp add: r invokeFailure_doh)
qed

text \<open>
  C7 at a failing input. The tab's main resource resolved to \<open>enforce\<close>; when an image
  of the page completes, the DoH endpoint no longer resolves. \<open>getHARCDNSPayload\<close>
  answers \<open>doh-failure\<close> at once, but for a sub-resource the action is then replaced by
  the tab's, and the verdict recorded is \<open>untrusted\<close>, with the block page injected.
  (For the main resource \<open>doh_failure_of_main_resource\<close> shows the \<open>doh-failure\<close>
  state and no script.)
\<close>

theorem doh_failure_of_subresource_recorded_untrusted:
  "getHARCDNSPayload offlineBrowser enforcedTab exampleImage = (Some (js ''doh-failure''), None)
   \<and> verifyResponseContent offlineBrowser (exampleResponse exampleImage []) enforcedTab
       = (Normal, enforcedTab
           \<lparr>VALIDATION_RESULT_MAP := [1 \<mapsto> ''untrusted''],
            trace := [SetBadgeText 1 ''!'', SetBadgeBackgroundColor 1 [217, 0, 0, 255],
                      ExecuteScript 1 ''src/actions/block.js'']\<rparr>)"
  by (simp add: enforcedTab_def offlineBrowser_def verifier_eval example_eval js_eval str_eval
      waitForAction.simps)

subsection \<open>The captured entry after a verdict\<close>

lemma checkResponse_failure_keeps_capture:
  assumes "importPublicKey w publicKeyDer = None
           \<or> signatureHeader (responseHeaders response) = None
           \<or> (\<exists>e. signatureHeader (responseHeaders response) = Some e \<and> atob w e = None)"
  shows "checkResponse w response tabResponses action publicKeyDer s
           = (Normal, invokeFailure (tabId response) action s)"
    and "heap (snd (checkResponse w response tabResponses action publicKeyDer s)) = heap s"
proof -
  show r: "checkResponse w response tabResponses action publicKeyDer s
           = (Normal, invokeFailure (tabId response) action s)"
    using assms by (auto simp: checkResponse_def Let_def split: option.splits)
  show "heap (snd (checkResponse w response tabResponses action publicKeyDer s)) = heap s"
    by (simp add: r invokeFailure_def emit_def Let_def)
qed

text \<open>
  C9 at a failing input. The main resource of a domain with a HARC record arrives without
  a signature header: \<open>untrusted\<close> is recorded and the block page injected, and the
  captured bytes are still stored under the URL afterwards. The same holds when the key
  does not import or the signature does not decode
  (\<open>checkResponse_failure_keeps_capture\<close>).
\<close>

theorem capture_kept_after_missing_signature:
  "verifyResponseContent exampleBrowser (exampleResponse exampleUrl []) exampleState
     = (Normal, exampleState
         \<lparr>TAB_ACTION_MAP := [1 \<mapsto> Some (js ''enforce'')],
          VALIDATION_RESULT_MAP := [1 \<mapsto> ''untrusted''],
          trace := [SetBadgeText 1 ''!'', SetBadgeBackgroundColor 1 [217, 0, 0, 255],
                    ExecuteScript 1 ''src/actions/block.js'']\<rparr>)
   \<and> heap (snd (verifyResponseContent exampleBrowser (exampleResponse exampleUrl []) exampleState))
        0 exampleUrl = Some \<lparr>ab = str2ab (js ''hi''), blob = str2ab (js ''hi'')\<rparr>"
  by (simp add: verifier_eval example_eval js_eval str_eval)

subsection \<open>Response capture\<close>

lemma runFilter_append:
  "runFilter td env n (es @ es') c s =
     (case runFilter td env n es c s of
        (c', s') \<Rightarrow> runFilter td env (n + length es) es' c' s')"
  by (induction es arbitrary: n c s) (auto split: prod.splits)

lemma runFilter_data:
  "decoder c \<noteq> None \<Longrightarrow>
   (case runFilter td env n (map OnData chunks) c s of
      (c', s') \<Rightarrow>
        trace s' = trace s @ map (FilterWrite (requestId (request c))) chunks
        \<and> responseChunksArrayBuffer c' = responseChunksArrayBuffer c @ chunks
        \<and> length (responseChunks c') = length (responseChunks c) + length chunks
        \<and> decoder c' \<noteq> None \<and> request c' = request c)"
proof (induction chunks arbitrary: n c s)
  case Nil
  then show ?case by simp
next
  case (Cons x xs)
  from Cons.prems obtain d where d: "decoder c = Some d" by auto
  obtain chunk d' where dec: "decodeStream td d x = (chunk, d')" by (cases "decodeStream td d x")
  let ?c1 = "c\<lparr>responseChunksArrayBuffer := responseChunksArrayBuffer c @ [x],
               decoder := Some d', responseChunks := responseChunks c @ [chunk]\<rparr>"
  let ?s1 = "emit (FilterWrite (requestId (request c)) x) (between env n s)"
  have step: "deliver td (OnData x) c (between env n s) = (Normal, ?c1, ?s1)"
    by (simp add: deliver_def ondata_def Let_def d dec)
  have unfold: "runFilter td env n (OnData x # map OnData xs) c s
                = runFilter td env (Suc n) (map OnData xs) ?c1 ?s1"
    by (simp only: runFilter.simps step prod.case Suc_eq_plus1)
  obtain c' s' where r: "runFilter td env (Suc n) (map OnData xs) ?c1 ?s1 = (c', s')"
    by (cases "runFilter td env (Suc n) (map OnData xs) ?c1 ?s1")
  have "decoder ?c1 \<noteq> None" by simp
  from Cons.IH [OF this, where n = "Suc n" and s = ?s1]
  have ih: "trace s' = trace ?s1 @ map (FilterWrite (requestId (request ?c1))) xs"
    "responseChunksArrayBuffer c' = responseChunksArrayBuffer ?c1 @ xs"
    "length (responseChunks c') = length (responseChunks ?c1) + length xs"
    "decoder c' \<noteq> None" "request c' = request ?c1"
    by (simp_all add: r)
  have s1: "trace ?s1 = trace s @ [FilterWrite (requestId (request c)) x]"
    by (simp add: between_def emit_def)
  show ?case
    apply (simp only: list.map unfold r prod.case)
    using ih s1 by simp
qed

lemma captureResponseContent_fresh:
  assumes "captureResponseContent w rq s = (r, Some c, s')"
  shows "request c = rq \<and> decoder c = None \<and> responseChunksArrayBuffer c = []
         \<and> responseChunks c = [] \<and> TAB_RESPONSES_MAP s' (tabId rq) \<noteq> None"
  using assms
  by (auto simp: captureResponseContent_def Let_def split: option.splits if_splits)

text \<open>
  C5. For a response delivered as \<open>onstart\<close>, one \<open>ondata\<close> per chunk and
  \<open>onstop\<close>, whatever the other handlers do in between: every chunk is written to the
  filter unchanged and in order, followed by the close; the chunks are all accumulated;
  and at \<open>onstop\<close>, if the tab still has its response map, the entry stored under the
  request's URL is the concatenation of all chunks (with the \<open>str2ab\<close> bytes of the
  decoded text), in place of whatever was stored there, every other entry untouched.
\<close>

theorem capture_passes_through_and_publishes:
  assumes "decoder c = None" and "responseChunksArrayBuffer c = []" and "responseChunks c = []"
  shows
    "case runFilter td env 0 (OnStart # map OnData chunks) c s of
       (c1, s1) \<Rightarrow>
         (let s2 = between env (Suc (length chunks)) s1
          in case onstop td c1 s2 of
               (r, c2, s3) \<Rightarrow>
                 runFilter td env 0 (OnStart # map OnData chunks @ [OnStop]) c s = (c2, s3)
                 \<and> trace s3 = trace s @ map (FilterWrite (requestId (request c))) chunks
                                @ [FilterClose (requestId (request c))]
                 \<and> responseChunksArrayBuffer c1 = chunks
                 \<and> (\<forall>a. TAB_RESPONSES_MAP s2 (tabId (request c)) = Some a \<longrightarrow>
                       r = Normal
                       \<and> heap s3 a (url (request c))
                           = Some \<lparr>ab = str2ab (concat (responseChunks c2)), blob = concat chunks\<rparr>
                       \<and> (\<forall>u. u \<noteq> url (request c) \<longrightarrow> heap s3 a u = heap s2 a u)
                       \<and> (\<forall>a'. a' \<noteq> a \<longrightarrow> heap s3 a' = heap s2 a')))"
proof -
  obtain c0 s0 where start: "deliver td OnStart c (between env 0 s) = (Normal, c0, s0)"
    and c0: "decoder c0 \<noteq> None" "request c0 = request c"
            "responseChunksArrayBuffer c0 = []" "responseChunks c0 = []"
    and s0: "trace s0 = trace s"
    using assms
    by (cases "TAB_RESPONSES_ENCODING_MAP (between env 0 s) (requestId (request c))")
       (simp_all add: deliver_def onstart_def between_def)
  obtain c1 s1 where run: "runFilter td env (Suc 0) (map OnData chunks) c0 s0 = (c1, s1)"
    by (cases "runFilter td env (Suc 0) (map OnData chunks) c0 s0")
  have data: "trace s1 = trace s @ map (FilterWrite (requestId (request c))) chunks"
    "responseChunksArrayBuffer c1 = chunks" "decoder c1 \<noteq> None" "request c1 = request c"
    using runFilter_data [OF c0(1), where td = td and env = env and n = "Suc 0" and chunks = chunks and s = s0] run c0 s0 by simp_all
  have first: "runFilter td env 0 (OnStart # map OnData chunks) c s = (c1, s1)"
    by (simp only: runFilter.simps start prod.case add_0) (simp add: run)
  let ?s2 = "between env (Suc (length chunks)) s1"
  obtain r c2 s3 where stop: "onstop td c1 ?s2 = (r, c2, s3)"
    by (cases "onstop td c1 ?s2")
  have "runFilter td env 0 ((OnStart # map OnData chunks) @ [OnStop]) c s
          = runFilter td env (0 + length (OnStart # map OnData chunks)) [OnStop] c1 s1"
    by (simp only: runFilter_append first prod.case)
  also have "\<dots> = (c2, s3)"
    by (simp add: deliver_def stop)
  finally have whole: "runFilter td env 0 (OnStart # map OnData chunks @ [OnStop]) c s = (c2, s3)"
    by simp
  from data(3) obtain d where d: "decoder c1 = Some d" by auto
  have tr: "trace s3 = trace s @ map (FilterWrite (requestId (request c))) chunks
                         @ [FilterClose (requestId (request c))]"
    using stop data(1,4)
    by (auto simp: onstop_def Let_def d between_def emit_def split: option.splits)
  have pub: "r = Normal
      \<and> heap s3 a (url (request c))
          = Some \<lparr>ab = str2ab (concat (responseChunks c2)), blob = concat chunks\<rparr>
      \<and> (\<forall>u. u \<noteq> url (request c) \<longrightarrow> heap s3 a u = heap ?s2 a u)
      \<and> (\<forall>a'. a' \<noteq> a \<longrightarrow> heap s3 a' = heap ?s2 a')"
    if "TAB_RESPONSES_MAP ?s2 (tabId (request c)) = Some a" for a
    using stop that data(2,4)
    by (auto simp: onstop_def Let_def d emit_def)
  show ?thesis
    apply (simp only: first prod.case Let_def stop)
    using whole tr data(2) pub by blast
qed

text \<open>C5 at a response of two chunks.\<close>

theorem capture_passes_through_and_publishes_witness:
  "runFilter exampleDecoder (\<lambda>n s. s) 0
     (OnStart # map OnData [[0x68], [0x69, 0x21]] @ [OnStop]) exampleCapture exampleState
   = (exampleCapture\<lparr>decoder := Some (),
        responseChunksArrayBuffer := [[0x68], [0x69, 0x21]],
        responseChunks := [[0x68], [0x69, 0x21], []]\<rparr>,
      exampleState\<lparr>
        heap := (heap exampleState)
          (0 := (heap exampleState 0)
             (exampleUrl \<mapsto> \<lparr>ab = [0x68, 0x69, 0x21], blob = [0x68, 0x69, 0x21]\<rparr>)),
        trace := [FilterWrite (js ''42'') [0x68], FilterWrite (js ''42'') [0x69, 0x21],
                  FilterClose (js ''42'')]\<rparr>)"
  using capture_passes_through_and_publishes [where c = exampleCapture and td = exampleDecoder
      and env = "\<lambda>n s. s" and chunks = "[[0x68], [0x69, 0x21]]" and s = exampleState]
  by (simp add: exampleCapture_def exampleDecoder_def exampleState_def exampleUrl_def
      deliver_def onstart_def ondata_def onstop_def between_def emit_def str2ab_map Let_def
      js_def)

subsection \<open>The bounded wait for the captured response\<close>

lemma sleep_p_trace: "trace_p (sleep_p w i ms s) = trace_p s @ [Sleep ms]"
  by (simp add: sleep_p_def emit_p_def Let_def)

lemma waitForContent_trace:
  "i \<le> 5 \<Longrightarrow>
   (\<exists>n \<le> 5 - i. trace_p (waitForContent w u i s) = trace_p s @ replicate n (Sleep 1000))
   \<and> (RESPONSE_MAP (waitForContent w u i s) u = None \<longrightarrow>
        trace_p (waitForContent w u i s) = trace_p s @ replicate (5 - i) (Sleep 1000))"
proof (induction w u i s rule: waitForContent.induct)
  case (1 w u i s)
  show ?case
  proof (cases "i < 5 \<and> RESPONSE_MAP s u = None")
    case True
    then have eq: "waitForContent w u i s = waitForContent w u (i + 1) (sleep_p w i 1000 s)"
      by (subst waitForContent.simps) simp
    have le: "i + 1 \<le> 5" using True by simp
    from "1.IH" [OF _ _ le] True
    obtain n where n: "n \<le> 5 - (i + 1)"
      "trace_p (waitForContent w u (i + 1) (sleep_p w i 1000 s))
         = trace_p (sleep_p w i 1000 s) @ replicate n (Sleep 1000)"
      and ex: "RESPONSE_MAP (waitForContent w u (i + 1) (sleep_p w i 1000 s)) u = None \<longrightarrow>
         trace_p (waitForContent w u (i + 1) (sleep_p w i 1000 s))
           = trace_p (sleep_p w i 1000 s) @ replicate (5 - (i + 1)) (Sleep 1000)"
      by auto
    have a: "trace_p (waitForContent w u i s) = trace_p s @ replicate (Suc n) (Sleep 1000)"
      by (simp only: eq n(2) sleep_p_trace) simp
    have "Suc n \<le> 5 - i" using n(1) True by arith
    with a have first: "\<exists>n \<le> 5 - i. trace_p (waitForContent w u i s)
        = trace_p s @ replicate n (Sleep 1000)"
      by blast
    have suc: "Suc (5 - (i + 1)) = 5 - i" using True by arith
    have second: "RESPONSE_MAP (waitForContent w u i s) u = None \<longrightarrow>
        trace_p (waitForContent w u i s) = trace_p s @ replicate (5 - i) (Sleep 1000)"
    proof
      assume "RESPONSE_MAP (waitForContent w u i s) u = None"
      then have "RESPONSE_MAP (waitForContent w u (i + 1) (sleep_p w i 1000 s)) u = None"
        by (simp only: eq)
      with ex have "trace_p (waitForContent w u i s)
          = (trace_p s @ [Sleep 1000]) @ replicate (5 - (i + 1)) (Sleep 1000)"
        by (simp only: eq sleep_p_trace)
      also have "\<dots> = trace_p s @ replicate (Suc (5 - (i + 1))) (Sleep 1000)"
        by simp
      finally show "trace_p (waitForContent w u i s)
          = trace_p s @ replicate (5 - i) (Sleep 1000)"
        by (simp only: suc)
    qed
    from first second show ?thesis by blast
  next
    case False
    then have eq: "waitForContent w u i s = s"
      by (subst waitForContent.simps) auto
    have "\<exists>n \<le> 5 - i. trace_p s = trace_p s @ replicate n (Sleep 1000)"
      by (rule exI [of _ 0]) simp
    moreover have "RESPONSE_MAP s u = None \<longrightarrow> 5 - i = 0"
      using False "1.prems" by auto
    ultimately show ?thesis by (auto simp: eq)
  qed
qed

lemma invokeFailure_p_trace:
  "trace_p (invokeFailure_p action s) =
     trace_p s @ [if action = Some (js ''doh-failure'') then ExecuteAlert dohFailureMsg
                  else ExecuteFile (if action = Some (js ''enforce'') then ''src/actions/block.js''
                                    else ''src/actions/warn.js'')]"
  and invokeFailure_p_results:
  "VALIDATION_RESULT_MAP_p (invokeFailure_p action s) = VALIDATION_RESULT_MAP_p s"
  by (simp_all add: invokeFailure_p_def emit_p_def)

lemma verifyCaptured_no_sleep:
  "\<exists>rest. trace_p (verifyCaptured w response action publicKey signature s)
            = trace_p (waitForContent w (url response) 0 s) @ rest
          \<and> (\<forall>ms. Sleep ms \<notin> set rest)"
  by (cases "RESPONSE_MAP (waitForContent w (url response) 0 s) (url response)")
     (simp_all add: verifyCaptured_def Let_def invokeFailure_p_trace setResult_def emit_p_def)

text \<open>
  C8. For an eligible main resource with a decodable signature header, a DNS record with
  a key, and a key that imports: while the captured content is not there the earlier
  verifier sleeps one second at a time, at most five times, whatever the other handlers
  do meanwhile, and never sleeps again after the loop. If the content is still missing
  after the loop, exactly five sleeps have passed, \<open>untrusted\<close> is recorded for the URL
  and the failure action is invoked (the last effect).
\<close>

theorem response_wait_is_bounded:
  assumes "tabsQuery w = Some (url response)"
    and "scanHeaders_p w (responseHeaders response) = (contentType, Some signature)"
    and "startsWith contentType (js ''text/'') \<or> contentType \<in> set APP_CONTENT_TYPE_TO_VERIFY"
    and "getHARCDNSPayload_p w (limitResults s) (url response) = (action, Some publicKeyDer)"
    and "importPublicKey w (Some publicKeyDer) = Some publicKey"
  shows
    "let waited = waitForContent w (url response) 0 (limitResults s);
         final = verifyResponseContent_p w response s
     in (\<exists>n \<le> 5. trace_p waited = trace_p s @ replicate n (Sleep 1000))
      \<and> (\<exists>rest. trace_p final = trace_p waited @ rest \<and> (\<forall>ms. Sleep ms \<notin> set rest))
      \<and> (RESPONSE_MAP waited (url response) = None \<longrightarrow>
            trace_p waited = trace_p s @ replicate 5 (Sleep 1000)
            \<and> final = invokeFailure_p action (setResult (url response) ''untrusted'' waited)
            \<and> map_of (VALIDATION_RESULT_MAP_p final) (url response) = Some ''untrusted''
            \<and> trace_p final = trace_p waited @
                 [if action = Some (js ''doh-failure'') then ExecuteAlert dohFailureMsg
                  else ExecuteFile (if action = Some (js ''enforce'')
                                    then ''src/actions/block.js'' else ''src/actions/warn.js'')])"
proof -
  let ?s1 = "limitResults s"
  let ?u = "url response"
  let ?waited = "waitForContent w ?u 0 ?s1"
  let ?final = "verifyResponseContent_p w response s"
  have eligible: "\<not> (\<not> startsWith contentType (js ''text/'')
                       \<and> contentType \<notin> set APP_CONTENT_TYPE_TO_VERIFY)"
    using assms(3) by blast
  have reach: "?final = verifyCaptured w response action publicKey signature ?s1"
    using assms(1,2,4,5) eligible by (auto simp: verifyResponseContent_p_def Let_def)
  have tr0: "trace_p ?s1 = trace_p s"
    by (simp add: limitResults_def)
  have bound: "\<exists>n \<le> 5. trace_p ?waited = trace_p s @ replicate n (Sleep 1000)"
    using waitForContent_trace [of 0 w ?u ?s1] by (simp add: tr0)
  have after: "\<exists>rest. trace_p ?final = trace_p ?waited @ rest \<and> (\<forall>ms. Sleep ms \<notin> set rest)"
    unfolding reach by (rule verifyCaptured_no_sleep)
  have exhausted: "trace_p ?waited = trace_p s @ replicate 5 (Sleep 1000)
      \<and> ?final = invokeFailure_p action (setResult ?u ''untrusted'' ?waited)
      \<and> map_of (VALIDATION_RESULT_MAP_p ?final) ?u = Some ''untrusted''
      \<and> trace_p ?final = trace_p ?waited @
           [if action = Some (js ''doh-failure'') then ExecuteAlert dohFailureMsg
            else ExecuteFile (if action = Some (js ''enforce'')
                              then ''src/actions/block.js'' else ''src/actions/warn.js'')]"
    if none: "RESPONSE_MAP ?waited ?u = None"
  proof -
    have t: "trace_p ?waited = trace_p s @ replicate 5 (Sleep 1000)"
      using waitForContent_trace [of 0 w ?u ?s1] none by (simp add: tr0)
    have f: "?final = invokeFailure_p action (setResult ?u ''untrusted'' ?waited)"
      by (simp add: reach verifyCaptured_def Let_def none)
    have v: "map_of (VALIDATION_RESULT_MAP_p ?final) ?u = Some ''untrusted''"
      by (simp add: f invokeFailure_p_results setResult_def update_Some_unfold)
    have e: "trace_p ?final = trace_p ?waited @
           [if action = Some (js ''doh-failure'') then ExecuteAlert dohFailureMsg
            else ExecuteFile (if action = Some (js ''enforce'')
                              then ''src/actions/block.js'' else ''src/actions/warn.js'')]"
      by (simp add: f invokeFailure_p_trace setResult_def)
    from t f v e show ?thesis by blast
  qed
  show ?thesis
    unfolding Let_def using bound after exhausted by blast
qed

text \<open>C8 at a signed page whose content never arrives.\<close>

theorem response_wait_is_bounded_witness:
  "verifyResponseContent_p exampleBrowser_p signedPage exampleState_p
   = exampleState_p
       \<lparr>VALIDATION_RESULT_MAP_p := [(exampleUrl, ''untrusted'')],
        trace_p := replicate 5 (Sleep 1000) @ [ExecuteFile ''src/actions/block.js'']\<rparr>"
  using response_wait_is_bounded [where w = exampleBrowser_p and response = signedPage
      and s = exampleState_p and contentType = "js ''text/html''"
      and signature = "str2ab (js ''SIG'')" and action = "Some (js ''enforce'')"
      and publicKeyDer = "js ''S0VZ''" and publicKey = 7]
  by (simp add: exampleBrowser_p_def exampleState_p_def signedPage_def exampleUrl_def
      verifyResponseContent_p_def scanHeaders_p_def getHARCDNSPayload_p_def limitResults_def
      validateDohServer_def dnsQueryDomain_def importPublicKey_def verifyCaptured_def
      waitForContent.simps sleep_p_def emit_p_def invokeFailure_p_def setResult_def
      HARC_HEADER_DIGEST_def HARC_HEADER_SIGNATURE_def HARC_DNS_SUBDOMAIN_def
      APP_CONTENT_TYPE_TO_VERIFY_def VALIDATION_RESULT_MAP_LIMIT_def str2ab_map Let_def
      js_eval str_eval)

subsection \<open>The signing proxy\<close>

lemmas proxy_eval = proxyResEnd_def headerOrDash_def copyHeaders_def fixContentLength_def
  signContent_def setHeader_def hasHeader_def getHeader_def parseIntValue_def parseInt10_def
  isDigit_def digitsValue_def bufferToString_def stringToBytes_def bodyBytes_def
  utf8_lead_def utf8_bytes_def codeUnits_def scalar_def APP_CONTENT_TYPE_TO_SIGN_def
  HARC_HEADER_ALGO_srv_def HARC_HEADER_DIGEST_srv_def HARC_HEADER_SIGNATURE_srv_def
  exampleProxy_def exampleGzip_def str2ab_map Let_def

lemma lower_names:
  "toLowerCase (js ''content-length'') = js ''content-length''"
  "toLowerCase HARC_HEADER_ALGO_srv = js ''x-arc-algo''"
  "toLowerCase HARC_HEADER_DIGEST_srv = js ''x-arc-digest''"
  "toLowerCase HARC_HEADER_SIGNATURE_srv = js ''x-arc-signature''"
  by (simp_all add: HARC_HEADER_ALGO_srv_def HARC_HEADER_DIGEST_srv_def
      HARC_HEADER_SIGNATURE_srv_def js_eval str_eval)

lemma names_differ:
  "js ''x-arc-signature'' \<noteq> js ''content-length''"
  "js ''x-arc-signature'' \<noteq> js ''x-arc-algo''"
  "js ''x-arc-signature'' \<noteq> js ''x-arc-digest''"
  "js ''content-encoding'' \<noteq> js ''content-length''"
  "js ''content-encoding'' \<noteq> js ''x-arc-algo''"
  "js ''content-encoding'' \<noteq> js ''x-arc-digest''"
  "js ''content-encoding'' \<noteq> js ''x-arc-signature''"
  "js ''content-length'' \<noteq> js ''x-arc-algo''"
  "js ''content-length'' \<noteq> js ''x-arc-digest''"
  "js ''content-length'' \<noteq> js ''x-arc-signature''"
  by (simp_all add: js_eval)

lemma copyHeaders_absent:
  "\<forall>(k, v) \<in> set hs. toLowerCase k \<noteq> n \<Longrightarrow> h n = None \<Longrightarrow> copyHeaders hs h n = None"
  unfolding copyHeaders_def
  by (induction hs arbitrary: h) (auto simp: setHeader_def)

lemma copyHeaders_content_encoding:
  "h (js ''content-encoding'') = None \<Longrightarrow> copyHeaders hs h (js ''content-encoding'') = None"
  unfolding copyHeaders_def
  by (induction hs arbitrary: h) (auto simp: setHeader_def)

lemma fixContentLength_other:
  "n \<noteq> js ''content-length'' \<Longrightarrow> fixContentLength c h n = h n"
  by (simp add: fixContentLength_def setHeader_def lower_names)

lemma signContent_signature:
  "signContent z contentType c h (js ''x-arc-signature'') =
     (if includes_str contentType (js ''text/'') \<or> contentType \<in> set APP_CONTENT_TYPE_TO_SIGN
      then Some (HARC_HEADER_SIGNATURE_srv, HStr (subtleSign z (str2ab c)))
      else h (js ''x-arc-signature''))"
  by (simp add: signContent_def setHeader_def lower_names Let_def)

lemma signContent_other:
  "n \<noteq> js ''x-arc-algo'' \<Longrightarrow> n \<noteq> js ''x-arc-digest'' \<Longrightarrow> n \<noteq> js ''x-arc-signature'' \<Longrightarrow>
   signContent z contentType c h n = h n"
  by (simp add: signContent_def setHeader_def lower_names Let_def)

text \<open>
  C1, as stated, fails in both directions. \<open>application/json; charset=utf-8\<close> is
  eligible once its charset parameter is ignored, yet the response gets no signature
  header: the allow-list is compared with the whole header value. And
  \<open>image/svg+xml; note=text/plain\<close> is not eligible, yet it is signed: the test for
  \<open>text/\<close> is \<open>includes\<close>, not a test of the start.
\<close>

theorem signature_eligibility_counterexample:
  "spec_isEligible (js ''application/json; charset=utf-8'')
   \<and> map_option (\<lambda>r. headersOut r (js ''x-arc-signature''))
        (proxyResEnd exampleProxy
           [(js ''content-type'', js ''application/json; charset=utf-8'')] [[0x7B, 0x7D]])
       = Some None
   \<and> \<not> spec_isEligible (js ''image/svg+xml; note=text/plain'')
   \<and> map_option (\<lambda>r. headersOut r (js ''x-arc-signature''))
        (proxyResEnd exampleProxy
           [(js ''content-type'', js ''image/svg+xml; note=text/plain'')] [[0x3C]])
       = Some (Some (js ''X-ARC-SIGNATURE'', HStr (js ''U0lH'')))"
  by (simp add: spec_isEligible_def proxy_eval js_eval str_eval)

text \<open>
  C1, amended. For every upstream response the proxy answers (whose own headers carry no
  \<open>x-arc-signature\<close>), the forwarded response has the header \<open>X-ARC-SIGNATURE\<close>, with
  the signature of the \<open>str2ab\<close> bytes of the content sent, if and only if the
  lower-cased \<open>Content-Type\<close> value, parameters included (\<open>-\<close> when absent), contains
  \<open>text/\<close> somewhere or is exactly one of the five allow-list entries; otherwise it has
  no signature header.
\<close>

theorem signature_header_iff_content_type_matches:
  assumes "proxyResEnd z hs responseContent = Some r"
    and "\<forall>(k, v) \<in> set hs. toLowerCase k \<noteq> js ''x-arc-signature''"
  shows
    "let contentType = headerOrDash hs (js ''content-type'');
         signed = (includes_str contentType (js ''text/'')
                   \<or> contentType \<in> set APP_CONTENT_TYPE_TO_SIGN)
     in (signed \<longrightarrow>
           headersOut r (js ''x-arc-signature'')
             = Some (js ''X-ARC-SIGNATURE'', HStr (subtleSign z (str2ab (endContent r)))))
      \<and> (\<not> signed \<longrightarrow> headersOut r (js ''x-arc-signature'') = None)"
proof -
  let ?ct = "headerOrDash hs (js ''content-type'')"
  from assms(1) obtain buffer enc where
    r: "r = \<lparr>headersOut =
                signContent z ?ct (bufferToString enc buffer)
                  (fixContentLength (bufferToString enc buffer) (copyHeaders hs Map.empty)),
             endContent = bufferToString enc buffer, endEncoding = enc\<rparr>"
    by (auto simp: proxyResEnd_def Let_def split: option.splits)
  have none: "fixContentLength c (copyHeaders hs Map.empty) (js ''x-arc-signature'') = None" for c
    using copyHeaders_absent [OF assms(2), of Map.empty]
    by (simp add: fixContentLength_other names_differ)
  show ?thesis
    by (simp add: r signContent_signature none HARC_HEADER_SIGNATURE_srv_def Let_def)
qed

text \<open>The amended C1 at a JSON response and at an image.\<close>

theorem signature_header_iff_content_type_matches_witness:
  "map_option (\<lambda>r. headersOut r (js ''x-arc-signature''))
     (proxyResEnd exampleProxy [(js ''content-type'', js ''Application/JSON'')] [[0x7B, 0x7D]])
     = Some (Some (js ''X-ARC-SIGNATURE'', HStr (js ''U0lH'')))
   \<and> map_option (\<lambda>r. headersOut r (js ''x-arc-signature''))
     (proxyResEnd exampleProxy [(js ''content-type'', js ''image/png'')] [[0x89]])
     = Some None"
  using signature_header_iff_content_type_matches [where z = exampleProxy
      and hs = "[(js ''content-type'', js ''Application/JSON'')]"
      and responseContent = "[[0x7B, 0x7D]]"]
    signature_header_iff_content_type_matches [where z = exampleProxy
      and hs = "[(js ''content-type'', js ''image/png'')]" and responseContent = "[[0x89]]"]
  by (simp add: proxy_eval js_eval str_eval)

subsection \<open>Decompression and the length header\<close>

lemma content_encoding_dropped:
  assumes "proxyResEnd z hs responseContent = Some r"
  shows "headersOut r (js ''content-encoding'') = None"
proof -
  from assms obtain c ct where
    r: "headersOut r = signContent z ct c (fixContentLength c (copyHeaders hs Map.empty))"
    by (auto simp: proxyResEnd_def Let_def split: option.splits)
  show ?thesis
    by (simp add: r signContent_other fixContentLength_other names_differ
        copyHeaders_content_encoding)
qed

lemma binary_round_trip: "stringToBytes Binary (bufferToString Binary buffer) = buffer"
proof -
  have "(ucast (ucast b :: jschar) :: byte) = b" for b :: byte
    by (rule bit_word_eqI) (auto simp: bit_ucast_iff dest: bit_imp_le_length)
  then show ?thesis
    by (simp add: stringToBytes_def bufferToString_def map_idI)
qed

lemma fixContentLength_value:
  assumes "hasHeader (js ''content-length'') h"
  shows "\<exists>v. getHeader (js ''content-length'') (fixContentLength c h) = Some v
             \<and> parseIntValue v = Some (int (length c))"
  using assms
  by (auto simp: fixContentLength_def hasHeader_def getHeader_def setHeader_def lower_names
      parseIntValue_def)

lemma gzip_binary_forwarded:
  assumes "headerOrDash hs (js ''content-encoding'') = js ''gzip''"
    and "\<not> includes_str (headerOrDash hs (js ''content-type'')) (js ''charset=utf-8'')"
    and "gunzipSync z (concat responseContent) = Some buffer"
  shows "\<exists>r. proxyResEnd z hs responseContent = Some r
            \<and> bodyBytes r = buffer
            \<and> headersOut r (js ''content-encoding'') = None
            \<and> (hasHeader (js ''content-length'') (copyHeaders hs Map.empty) \<longrightarrow>
                 (\<exists>v. getHeader (js ''content-length'') (headersOut r) = Some v
                      \<and> parseIntValue v = Some (int (length buffer))))"
proof -
  let ?c = "bufferToString Binary buffer"
  let ?h = "copyHeaders hs Map.empty"
  let ?r = "\<lparr>headersOut = signContent z (headerOrDash hs (js ''content-type'')) ?c
                             (fixContentLength ?c ?h),
            endContent = ?c, endEncoding = Binary\<rparr>"
  have low: "toLowerCase (js ''gzip'') = js ''gzip''"
    by (simp add: js_eval str_eval)
  have r: "proxyResEnd z hs responseContent = Some ?r"
    using assms by (simp add: proxyResEnd_def Let_def low)
  have b: "bodyBytes ?r = buffer"
    by (simp add: bodyBytes_def binary_round_trip)
  have len: "length ?c = length buffer"
    by (simp add: bufferToString_def)
  have cl: "\<exists>v. getHeader (js ''content-length'') (headersOut ?r) = Some v
             \<and> parseIntValue v = Some (int (length buffer))"
    if "hasHeader (js ''content-length'') ?h"
    using fixContentLength_value [OF that, of ?c]
    by (simp add: getHeader_def lower_names signContent_other names_differ len)
  show ?thesis
    using r b cl content_encoding_dropped [OF r] by blast
qed

text \<open>
  C4 at a failing input. The upstream sends \<open>text/html; charset=utf-8\<close>, gzip-compressed,
  with \<open>Content-Length: 22\<close>; the body inflates to the two bytes of U+00E9. The proxy
  drops \<open>Content-Encoding\<close> and forwards those two bytes, but sets \<open>Content-Length\<close> to
  1, the length of the decoded string, not the byte count. (With the binary decoding the
  length is right: \<open>gzip_binary_forwarded\<close>.)
\<close>

theorem gzip_utf8_length_is_not_byte_count:
  "map_option
     (\<lambda>r. (getHeader (js ''content-length'') (headersOut r),
           headersOut r (js ''content-encoding''),
           endContent r, bodyBytes r, length (bodyBytes r)))
     (proxyResEnd exampleProxy
        [(js ''content-type'', js ''text/html; charset=utf-8''),
         (js ''content-encoding'', js ''gzip''),
         (js ''content-length'', js ''22'')]
        [exampleGzip])
   = Some (Some (HNum 1), None, [0xE9], [0xC3, 0xA9], 2)"
  by (simp add: proxy_eval js_eval str_eval)

end
